theory Spec2Isabelle
  imports Complex_Main "HOL-Library.List_Lexorder" "HOL-Library.Char_ord" "HOL-Library.Multiset"
    "HOL-Library.AList"
begin

section \<open>Python values used by the backend\<close>

text \<open>
  Strings are byte strings (\<open>char list\<close>), the UTF-8 encoding of the Python text.
  \<open>str.lower\<close> is modelled on ASCII: it maps \<open>A..Z\<close> to \<open>a..z\<close> and leaves every
  other byte alone, where Python also lower-cases the cased letters outside ASCII. Wallet
  addresses, hashes and role names are ASCII.
\<close>

definition lower_char :: "char \<Rightarrow> char" where
  "lower_char c =
     (let n = (of_char c :: nat) in if 65 \<le> n \<and> n \<le> 90 then char_of (n + 32) else c)"

definition lower :: "string \<Rightarrow> string" where
  "lower s = map lower_char s"

text \<open>Exceptions are values: the routes raise \<open>HTTPException(status_code, detail)\<close>.\<close>

datatype py_exception =
    HTTPException nat string
  | AttributeError string
  | KeyError string
  | TypeError string
  | Exception string

text \<open>\<open>str(i)\<close> for a non-negative integer, as the f-strings of the routes render it.\<close>

definition digit_char :: "nat \<Rightarrow> char" where
  "digit_char d = char_of (48 + d)"

function str_nat :: "nat \<Rightarrow> string" where
  "str_nat n = (if n < 10 then [digit_char n] else str_nat (n div 10) @ [digit_char (n mod 10)])"
  by pat_completeness auto
termination
  by (relation "measure (\<lambda>n. n)") auto

section \<open>The ledger: \<open>utils/blockchain.py\<close>\<close>

text \<open>
  The smart contract is an external collaborator. Its two view functions are parameters of
  the model: a call either raises (\<open>Inl\<close>) or returns the tuple of the ABI.
\<close>

record drug_tuple =
  t_isGenuine :: bool
  t_drugName :: string
  t_manufacturer :: string
  t_compositionHash :: string
  t_manufactureDate :: int
  t_expiryDate :: int
  t_currentOwner :: string
  t_transferCount :: int

record raw_ownership =
  r_from :: string
  r_to :: string
  r_timestamp :: int
  r_location :: string
  r_fromRole :: nat
  r_toRole :: nat

record contract =
  verifyDrug :: "string \<Rightarrow> py_exception + drug_tuple"
  getDrugHistory :: "string \<Rightarrow> py_exception + raw_ownership list"
  build_registerDrug :: "string \<Rightarrow> string \<Rightarrow> string \<Rightarrow> int \<Rightarrow> int \<Rightarrow> string \<Rightarrow> py_exception + string"
  build_transferOwnership :: "string \<Rightarrow> string \<Rightarrow> string \<Rightarrow> string \<Rightarrow> py_exception + string"

text \<open>
  The service catches every exception of a contract call and answers with a dict whose
  \<open>success\<close> key tells the two shapes apart; a datatype with one constructor per shape.
\<close>

datatype verify_result = VerifyOk drug_tuple | VerifyFailed string

record ownership_record =
  o_from :: string
  o_to :: string
  o_timestamp :: int
  o_location :: string
  o_fromRole :: string
  o_toRole :: string

datatype history_result = HistoryOk "ownership_record list" | HistoryFailed string

datatype tx_result = TxOk string | TxFailed string

definition quote :: string where
  "quote = [CHR 0x27]"

text \<open>
  \<open>str(e)\<close>: the message of the exception. An \<open>HTTPException\<close> prints its status code
  before its detail, a \<open>KeyError\<close> prints its key quoted.
\<close>

definition str_exc :: "py_exception \<Rightarrow> string" where
  "str_exc e =
     (case e of
        HTTPException c d \<Rightarrow> str_nat c @ '': '' @ d
      | AttributeError m \<Rightarrow> m
      | KeyError k \<Rightarrow> quote @ k @ quote
      | TypeError m \<Rightarrow> m
      | Exception m \<Rightarrow> m)"

definition role_enum_to_string :: "nat \<Rightarrow> string" where
  "role_enum_to_string role_num =
     (if role_num = 0 then ''NONE''
      else if role_num = 1 then ''MANUFACTURER''
      else if role_num = 2 then ''DISTRIBUTOR''
      else if role_num = 3 then ''PHARMACY''
      else if role_num = 4 then ''CONSUMER''
      else if role_num = 5 then ''REGULATOR''
      else ''UNKNOWN'')"

definition service_verify_drug :: "contract \<Rightarrow> string \<Rightarrow> verify_result" where
  "service_verify_drug c batch_id =
     (case verifyDrug c batch_id of
        Inr result \<Rightarrow> VerifyOk result
      | Inl e \<Rightarrow> VerifyFailed (str_exc e))"

definition format_record :: "raw_ownership \<Rightarrow> ownership_record" where
  "format_record record =
     \<lparr> o_from = r_from record, o_to = r_to record, o_timestamp = r_timestamp record,
       o_location = r_location record,
       o_fromRole = role_enum_to_string (r_fromRole record),
       o_toRole = role_enum_to_string (r_toRole record) \<rparr>"

definition service_get_drug_history :: "contract \<Rightarrow> string \<Rightarrow> history_result" where
  "service_get_drug_history c batch_id =
     (case getDrugHistory c batch_id of
        Inr history \<Rightarrow> HistoryOk (map format_record history)
      | Inl e \<Rightarrow> HistoryFailed (str_exc e))"

definition service_register_drug ::
  "contract \<Rightarrow> string \<Rightarrow> string \<Rightarrow> string \<Rightarrow> int \<Rightarrow> int \<Rightarrow> string \<Rightarrow> tx_result" where
  "service_register_drug c batch_id drug_name composition_hash manufacture_date expiry_date
       manufacturer_address =
     (case build_registerDrug c batch_id drug_name composition_hash manufacture_date
             expiry_date manufacturer_address of
        Inr transaction \<Rightarrow> TxOk transaction
      | Inl e \<Rightarrow> TxFailed (str_exc e))"

definition service_transfer_ownership ::
  "contract \<Rightarrow> string \<Rightarrow> string \<Rightarrow> string \<Rightarrow> string \<Rightarrow> tx_result" where
  "service_transfer_ownership c batch_id new_owner location current_owner =
     (case build_transferOwnership c batch_id new_owner location current_owner of
        Inr transaction \<Rightarrow> TxOk transaction
      | Inl e \<Rightarrow> TxFailed (str_exc e))"

section \<open>The off-chain store\<close>

text \<open>
  A JSON-shaped Python value. A dict keeps its items in insertion order, so it is an
  association list. A number carries the text \<open>json.dumps\<close> prints for it.
\<close>

datatype pyval =
    PNone
  | PBool bool
  | PNum string
  | PStr string
  | PList "pyval list"
  | PDict "(string \<times> pyval) list"

type_synonym pydict = "(string \<times> pyval) list"

record user_doc =
  u_walletAddress :: string
  u_role :: string
  u_name :: string
  u_isRegistered :: bool

record dataset_doc =
  d_drugName :: string
  d_standardComposition :: pydict

record storage_doc =
  s_batchId :: string
  s_drugName :: string
  s_fullComposition :: pydict
  s_compositionHash :: string
  s_manufacturer :: string
  s_manufactureDate :: int
  s_expiryDate :: int
  s_registrationTimestamp :: int

record batch_doc =
  b_batchId :: string
  b_drugName :: string
  b_manufacturer :: string
  b_currentOwner :: string
  b_status :: string
  b_manufactureDate :: int
  b_expiryDate :: int
  b_createdAt :: int
  b_updatedAt :: int

text \<open>
  The four MongoDB collections, each a list of documents in insertion order. The store's
  operations are total here: a failure of the store itself is outside the model.
\<close>

record database =
  users :: "user_doc list"
  drug_composition_dataset :: "dataset_doc list"
  drug_composition_storage :: "storage_doc list"
  drug_batches :: "batch_doc list"

definition find_one :: "('a \<Rightarrow> bool) \<Rightarrow> 'a list \<Rightarrow> 'a option" where
  "find_one p coll = List.find p coll"

definition insert_one :: "'a \<Rightarrow> 'a list \<Rightarrow> 'a list" where
  "insert_one doc coll = coll @ [doc]"

text \<open>\<open>update_one\<close> changes the first document that matches, and nothing when none does.\<close>

fun update_one :: "('a \<Rightarrow> bool) \<Rightarrow> ('a \<Rightarrow> 'a) \<Rightarrow> 'a list \<Rightarrow> 'a list" where
  "update_one p f [] = []"
| "update_one p f (x # xs) = (if p x then f x # xs else x # update_one p f xs)"

section \<open>Verification: \<open>routes/verification.py\<close>\<close>

text \<open>
  A value a route hands back is either built by a dict literal or an instance of a
  response model. \<open>x.field\<close> reads a field of a model instance and raises
  \<open>AttributeError\<close> on a dict.
\<close>

datatype 'a py_object = Dict 'a | Model 'a

definition getattr :: "'a py_object \<Rightarrow> ('a \<Rightarrow> 'b) \<Rightarrow> string \<Rightarrow> py_exception + 'b" where
  "getattr x field name =
     (case x of
        Model m \<Rightarrow> Inr (field m)
      | Dict d \<Rightarrow>
          Inl (AttributeError
                 (quote @ ''dict'' @ quote @ '' object has no attribute '' @ quote @ name @ quote)))"

record verdict =
  v_isGenuine :: bool
  v_status :: string
  v_batchId :: string
  v_drugName :: string
  v_manufacturer :: string
  v_compositionHash :: string
  v_currentOwner :: string
  v_manufactureDate :: int
  v_expiryDate :: int
  v_transferCount :: int
  v_ownershipHistory :: "ownership_record list"
  v_composition :: "pydict option"
  v_anomalies :: "string list"

text \<open>The pair \<open>(anomalies, status_text)\<close> that the checks of \<open>verify_drug\<close> update in turn.\<close>

type_synonym analysis = "string list \<times> string"

definition not_found_msg :: string where
  "not_found_msg = ''Batch ID not found on blockchain''"

definition expired_msg :: string where
  "expired_msg = ''Drug has expired''"

text \<open>The arrow of the message is U+2192, three bytes in UTF-8.\<close>

definition arrow :: string where
  "arrow = [CHR 0xE2, CHR 0x86, CHR 0x92]"

definition incomplete_chain_msg :: string where
  "incomplete_chain_msg =
     ''Incomplete ownership chain (expected: Manufacturer '' @ arrow @ '' Distributor '' @ arrow
       @ '' Pharmacy)''"

definition hash_mismatch_msg :: string where
  "hash_mismatch_msg = ''Composition hash mismatch - possible tampering''"

definition same_role_msg :: "nat \<Rightarrow> string" where
  "same_role_msg i = ''Suspicious transfer: same role transfer at index '' @ str_nat i"

definition zero_address_msg :: string where
  "zero_address_msg = ''Suspicious transfer to zero address detected''"

definition zero_address :: string where
  "zero_address = ''0x0000000000000000000000000000000000000000''"

definition check_expired :: "drug_tuple \<Rightarrow> int \<Rightarrow> analysis \<Rightarrow> analysis" where
  "check_expired blockchain_result current_timestamp a =
     (if t_expiryDate blockchain_result < current_timestamp
      then (fst a @ [expired_msg], ''EXPIRED'') else a)"

definition check_chain :: "drug_tuple \<Rightarrow> analysis \<Rightarrow> analysis" where
  "check_chain blockchain_result a =
     (if t_transferCount blockchain_result < 2
      then (fst a @ [incomplete_chain_msg], snd a) else a)"

definition check_hash :: "storage_doc option \<Rightarrow> drug_tuple \<Rightarrow> analysis \<Rightarrow> analysis" where
  "check_hash composition_data blockchain_result a =
     (case composition_data of
        None \<Rightarrow> a
      | Some doc \<Rightarrow>
          (if lower (s_compositionHash doc) \<noteq> lower (t_compositionHash blockchain_result)
           then (fst a @ [hash_mismatch_msg], ''FAKE'') else a))"

definition check_roles :: "ownership_record list \<Rightarrow> analysis \<Rightarrow> analysis" where
  "check_roles ownership_history a =
     fold (\<lambda>i a. if o_fromRole (ownership_history ! i) = o_toRole (ownership_history ! i)
                  then (fst a @ [same_role_msg i], snd a) else a)
          [1..<length ownership_history] a"

definition check_zero_address :: "ownership_record list \<Rightarrow> analysis \<Rightarrow> analysis" where
  "check_zero_address ownership_history a =
     fold (\<lambda>record a. if o_to record = zero_address
                       then (fst a @ [zero_address_msg], ''FAKE'') else a)
          ownership_history a"

definition final_status :: "analysis \<Rightarrow> analysis" where
  "final_status a =
     (if length (fst a) > 0 \<and> snd a = ''GENUINE'' then (fst a, ''INCOMPLETE_CHAIN'') else a)"

definition ownership_history_of :: "contract \<Rightarrow> string \<Rightarrow> ownership_record list" where
  "ownership_history_of c batch_id =
     (case service_get_drug_history c batch_id of
        HistoryOk history \<Rightarrow> history
      | HistoryFailed e \<Rightarrow> [])"

definition composition_data_of :: "database \<Rightarrow> string \<Rightarrow> storage_doc option" where
  "composition_data_of db batch_id =
     find_one (\<lambda>doc. s_batchId doc = batch_id) (drug_composition_storage db)"

definition analyse ::
  "drug_tuple \<Rightarrow> ownership_record list \<Rightarrow> storage_doc option \<Rightarrow> int \<Rightarrow> analysis" where
  "analyse blockchain_result ownership_history composition_data current_timestamp =
     final_status
       (check_zero_address ownership_history
         (check_roles ownership_history
           (check_hash composition_data blockchain_result
             (check_chain blockchain_result
               (check_expired blockchain_result current_timestamp ([], ''GENUINE''))))))"

text \<open>
  \<open>verify_drug\<close>, with the clock reading \<open>int(time.time())\<close> as the argument \<open>now\<close>.
  Its \<open>except Exception\<close> turns any exception of the body into \<open>HTTPException(500)\<close>; the
  service calls catch their own exceptions and nothing else in the body raises, so that every
  result of the model is \<open>Inr\<close>. The dict of the first return has no \<open>composition\<close> key:
  \<open>None\<close> here.
\<close>

definition verify_drug ::
  "contract \<Rightarrow> database \<Rightarrow> int \<Rightarrow> string \<Rightarrow> py_exception + verdict py_object" where
  "verify_drug c db now batch_id =
     (case service_verify_drug c batch_id of
        VerifyFailed e \<Rightarrow>
          Inr (Dict \<lparr> v_isGenuine = False, v_status = ''FAKE'', v_batchId = batch_id,
                      v_drugName = ''Unknown'', v_manufacturer = ''Unknown'',
                      v_compositionHash = [], v_currentOwner = [],
                      v_manufactureDate = 0, v_expiryDate = 0, v_transferCount = 0,
                      v_ownershipHistory = [], v_composition = None,
                      v_anomalies = [not_found_msg] \<rparr>)
      | VerifyOk blockchain_result \<Rightarrow>
          (let ownership_history = ownership_history_of c batch_id;
               composition_data = composition_data_of db batch_id;
               a = analyse blockchain_result ownership_history composition_data now;
               anomalies = fst a;
               status_text = snd a;
               is_genuine = (status_text = ''GENUINE'')
           in Inr (Dict \<lparr> v_isGenuine = is_genuine, v_status = status_text,
                           v_batchId = batch_id,
                           v_drugName = t_drugName blockchain_result,
                           v_manufacturer = t_manufacturer blockchain_result,
                           v_compositionHash = t_compositionHash blockchain_result,
                           v_currentOwner = t_currentOwner blockchain_result,
                           v_manufactureDate = t_manufactureDate blockchain_result,
                           v_expiryDate = t_expiryDate blockchain_result,
                           v_transferCount = t_transferCount blockchain_result,
                           v_ownershipHistory = ownership_history,
                           v_composition = map_option s_fullComposition composition_data,
                           v_anomalies = anomalies \<rparr>)))"

section \<open>Canonical hashing: \<open>utils/hashing.py\<close>\<close>

text \<open>
  \<open>for x in v\<close>: a list yields its elements, a string its characters, a dict its keys;
  nothing else is iterable.
\<close>

definition iterate :: "pyval \<Rightarrow> py_exception + pyval list" where
  "iterate v =
     (case v of
        PList xs \<Rightarrow> Inr xs
      | PStr s \<Rightarrow> Inr (map (\<lambda>ch. PStr [ch]) s)
      | PDict kvs \<Rightarrow> Inr (map (\<lambda>kv. PStr (fst kv)) kvs)
      | _ \<Rightarrow> Inl (TypeError ''object is not iterable''))"

text \<open>
  The name of the type of a value, as the messages of the built-in exceptions print it. The
  text of a number tells an \<open>int\<close> (digits and a sign only) from a \<open>float\<close>.
\<close>

definition type_name :: "pyval \<Rightarrow> string" where
  "type_name v =
     (case v of
        PNone \<Rightarrow> ''NoneType''
      | PBool b \<Rightarrow> ''bool''
      | PNum text \<Rightarrow>
          (if list_all (\<lambda>ch. ch \<in> set ''-0123456789'') text then ''int'' else ''float'')
      | PStr s \<Rightarrow> ''str''
      | PList xs \<Rightarrow> ''list''
      | PDict kvs \<Rightarrow> ''dict'')"

definition no_attribute :: "pyval \<Rightarrow> string \<Rightarrow> py_exception" where
  "no_attribute v name =
     AttributeError
       (quote @ type_name v @ quote @ '' object has no attribute '' @ quote @ name @ quote)"

text \<open>The sort key \<open>lambda x: x.get('name', '').lower()\<close>.\<close>

definition name_key :: "pyval \<Rightarrow> py_exception + string" where
  "name_key x =
     (case x of
        PDict kvs \<Rightarrow>
          (case map_of kvs ''name'' of
             None \<Rightarrow> Inr (lower [])
           | Some (PStr s) \<Rightarrow> Inr (lower s)
           | Some v \<Rightarrow> Inl (no_attribute v ''lower''))
      | _ \<Rightarrow> Inl (no_attribute x ''get''))"

text \<open>
  \<open>sorted(xs, key=...)\<close> computes the key of every element first (the first failing key
  raises), then sorts by key alone; the sort is stable.
\<close>

fun decorate :: "pyval list \<Rightarrow> py_exception + (string \<times> pyval) list" where
  "decorate [] = Inr []"
| "decorate (x # xs) =
     (case name_key x of
        Inl e \<Rightarrow> Inl e
      | Inr k \<Rightarrow> (case decorate xs of Inl e \<Rightarrow> Inl e | Inr ks \<Rightarrow> Inr ((k, x) # ks)))"

definition sorted_by_name :: "pyval list \<Rightarrow> py_exception + pyval list" where
  "sorted_by_name xs =
     (case decorate xs of
        Inl e \<Rightarrow> Inl e
      | Inr ks \<Rightarrow> Inr (map snd (sort_key fst ks)))"

text \<open>
  \<open>json.dumps(v, sort_keys=True, separators=(',', ':'))\<close> with the default
  \<open>ensure_ascii\<close>: inside a string the quote and the backslash are escaped, and so is every
  character outside \<open>' '..'~'\<close>, a character outside ASCII by its code point (as a
  surrogate pair above \<open>U+FFFF\<close>). The bytes of the string are taken as well-formed UTF-8.
\<close>

definition hex_digit :: "nat \<Rightarrow> char" where
  "hex_digit d = (if d < 10 then char_of (48 + d) else char_of (87 + d))"

definition backslash :: char where
  "backslash = CHR 0x5C"

definition dquote :: char where
  "dquote = CHR 0x22"

definition u_escape :: "nat \<Rightarrow> string" where
  "u_escape n =
     [backslash, CHR ''u'', hex_digit (n div 4096 mod 16), hex_digit (n div 256 mod 16),
      hex_digit (n div 16 mod 16), hex_digit (n mod 16)]"

definition escape_code_point :: "nat \<Rightarrow> string" where
  "escape_code_point n =
     (if n < 0x10000 then u_escape n
      else u_escape (0xD800 + (n - 0x10000) div 1024) @ u_escape (0xDC00 + (n - 0x10000) mod 1024))"

definition escape_char :: "char \<Rightarrow> string" where
  "escape_char ch =
     (let n = (of_char ch :: nat) in
      if n = 0x22 then [backslash, dquote]
      else if n = 0x5C then [backslash, backslash]
      else if n = 0x0A then [backslash, CHR ''n'']
      else if n = 0x0D then [backslash, CHR ''r'']
      else if n = 0x09 then [backslash, CHR ''t'']
      else if n = 0x08 then [backslash, CHR ''b'']
      else if n = 0x0C then [backslash, CHR ''f'']
      else if n < 0x20 \<or> 0x7E < n then u_escape n
      else [ch])"

text \<open>
  The bytes of one character: a lead byte below \<open>0x80\<close> stands alone, one below
  \<open>0xE0\<close> has one continuation byte, one below \<open>0xF0\<close> two, any other three.
\<close>

definition continuation_bytes :: "nat \<Rightarrow> nat" where
  "continuation_bytes n = (if n < 0x80 then 0 else if n < 0xE0 then 1 else if n < 0xF0 then 2 else 3)"

definition lead_bits :: "nat \<Rightarrow> nat" where
  "lead_bits n = (if n < 0xE0 then n mod 32 else if n < 0xF0 then n mod 16 else n mod 8)"

definition code_point :: "nat \<Rightarrow> string \<Rightarrow> nat" where
  "code_point n rest = fold (\<lambda>b acc. acc * 64 + (of_char b :: nat) mod 64) rest (lead_bits n)"

function json_escape :: "string \<Rightarrow> string" where
  "json_escape [] = []"
| "json_escape (ch # rest) =
     (let n = (of_char ch :: nat); k = continuation_bytes n in
      (if n < 0x80 then escape_char ch else escape_code_point (code_point n (take k rest)))
        @ json_escape (drop k rest))"
  by pat_completeness auto
termination
  by (relation "measure length") auto

definition json_string :: "string \<Rightarrow> string" where
  "json_string s = [dquote] @ json_escape s @ [dquote]"

fun join :: "string \<Rightarrow> string list \<Rightarrow> string" where
  "join sep [] = []"
| "join sep [x] = x"
| "join sep (x # y # ys) = x @ sep @ join sep (y # ys)"

fun dumps :: "pyval \<Rightarrow> string" where
  "dumps PNone = ''null''"
| "dumps (PBool b) = (if b then ''true'' else ''false'')"
| "dumps (PNum text) = text"
| "dumps (PStr s) = json_string s"
| "dumps (PList xs) = ''['' @ join '','' (map dumps xs) @ '']''"
| "dumps (PDict kvs) =
     ''{'' @ join '',''
        (map snd (sort_key fst
           (map (\<lambda>kv. (fst kv, json_string (fst kv) @ '':'' @ dumps (snd kv))) kvs)))
      @ ''}''"

text \<open>\<open>s.encode('utf-8')\<close>: the text is ASCII after escaping, one byte per character.\<close>

definition encode_utf8 :: "string \<Rightarrow> string" where
  "encode_utf8 s = s"

text \<open>
  \<open>normalize_composition\<close> assigns the sorted list back into the caller's dict before it
  serialises it, so the model returns the dict as the call leaves it, beside the text.
  Assigning to an existing key keeps the key's place; a new key goes last.
\<close>

definition normalize_composition :: "pydict \<Rightarrow> py_exception + (pydict \<times> string)" where
  "normalize_composition composition =
     (case map_of composition ''ingredients'' of
        None \<Rightarrow> Inr (composition, dumps (PDict composition))
      | Some v \<Rightarrow>
          (case iterate v of
             Inl e \<Rightarrow> Inl e
           | Inr xs \<Rightarrow>
               (case sorted_by_name xs of
                  Inl e \<Rightarrow> Inl e
                | Inr ys \<Rightarrow>
                    (let composition' = AList.update ''ingredients'' (PList ys) composition
                     in Inr (composition', dumps (PDict composition'))))))"

text \<open>
  \<open>hashlib.sha256(data).hexdigest()\<close> is a library function: the digest is the parameter
  \<open>sha256_hexdigest\<close> of the two functions that call it.
\<close>

definition generate_composition_hash ::
  "(string \<Rightarrow> string) \<Rightarrow> pydict \<Rightarrow> py_exception + (pydict \<times> string)" where
  "generate_composition_hash sha256_hexdigest composition =
     (case normalize_composition composition of
        Inl e \<Rightarrow> Inl e
      | Inr (composition', normalized_composition) \<Rightarrow>
          Inr (composition', sha256_hexdigest (encode_utf8 normalized_composition)))"

definition verify_composition_hash ::
  "(string \<Rightarrow> string) \<Rightarrow> pydict \<Rightarrow> string \<Rightarrow> py_exception + (pydict \<times> bool)" where
  "verify_composition_hash sha256_hexdigest composition expected_hash =
     (case generate_composition_hash sha256_hexdigest composition of
        Inl e \<Rightarrow> Inl e
      | Inr (composition', actual_hash) \<Rightarrow>
          Inr (composition', lower actual_hash = lower expected_hash))"

text \<open>
  Two dicts with the same items, in any order of the keys; the keys of a dict are distinct.
\<close>

definition same_items :: "pyval \<Rightarrow> pyval \<Rightarrow> bool" where
  "same_items a b =
     (case (a, b) of
        (PDict kvs, PDict kvs') \<Rightarrow> mset kvs = mset kvs' \<and> distinct (map fst kvs)
      | _ \<Rightarrow> False)"

section \<open>Composition validation: \<open>utils/validation.py\<close>\<close>

text \<open>
  \<open>ing['name'].lower()\<close>: only a dict with a string under \<open>name\<close> has one. The
  messages of the \<open>TypeError\<close> are those of Python 3.11.
\<close>

definition not_subscriptable :: "pyval \<Rightarrow> py_exception" where
  "not_subscriptable v =
     (case v of
        PStr s \<Rightarrow> TypeError (''string indices must be integers, not '' @ quote @ ''str'' @ quote)
      | PList xs \<Rightarrow> TypeError ''list indices must be integers or slices, not str''
      | _ \<Rightarrow> TypeError (quote @ type_name v @ quote @ '' object is not subscriptable''))"

definition name_lower :: "pyval \<Rightarrow> py_exception + string" where
  "name_lower ing =
     (case ing of
        PDict kvs \<Rightarrow>
          (case map_of kvs ''name'' of
             None \<Rightarrow> Inl (KeyError ''name'')
           | Some (PStr s) \<Rightarrow> Inr (lower s)
           | Some v \<Rightarrow> Inl (no_attribute v ''lower''))
      | _ \<Rightarrow> Inl (not_subscriptable ing))"

fun names_lower :: "pyval list \<Rightarrow> py_exception + string list" where
  "names_lower [] = Inr []"
| "names_lower (ing # ings) =
     (case name_lower ing of
        Inl e \<Rightarrow> Inl e
      | Inr n \<Rightarrow> (case names_lower ings of Inl e \<Rightarrow> Inl e | Inr ns \<Rightarrow> Inr (n # ns)))"

text \<open>
  The keys of \<open>{ing['name'].lower(): ing for ing in composition.get('ingredients', [])}\<close>,
  as a set.
\<close>

definition ingredient_names :: "pydict \<Rightarrow> py_exception + string set" where
  "ingredient_names composition =
     (case iterate (case map_of composition ''ingredients'' of None \<Rightarrow> PList [] | Some v \<Rightarrow> v) of
        Inl e \<Rightarrow> Inl e
      | Inr ings \<Rightarrow> (case names_lower ings of Inl e \<Rightarrow> Inl e | Inr ns \<Rightarrow> Inr (set ns)))"

text \<open>
  The details dict. The two lists are built from sets, in an order Python does not fix:
  they stay sets. The percentage is a float in the source and an exact rational here; the
  empty dict of the error return is \<open>None\<close>.
\<close>

record validation_details =
  matchPercentage :: rat
  missingIngredients :: "string set"
  extraIngredients :: "string set"
  totalProvidedIngredients :: nat
  totalExpectedIngredients :: nat

text \<open>
  \<open>f"{p:.1f}"\<close> for a percentage between 0 and 100: one decimal, a tie rounded to the
  even digit. The source formats the float nearest to the exact value, whose ties can fall
  on the other side.
\<close>

definition round_half_even :: "rat \<Rightarrow> int" where
  "round_half_even x =
     (let f = \<lfloor>x\<rfloor>; r = x - of_int f in
      if r < 1 / 2 then f else if 1 / 2 < r then f + 1 else if even f then f else f + 1)"

definition format_1f :: "rat \<Rightarrow> string" where
  "format_1f p =
     (let t = nat (round_half_even (p * 10)) in str_nat (t div 10) @ ''.'' @ str_nat (t mod 10))"

definition validate_composition ::
  "string \<Rightarrow> pydict \<Rightarrow> pydict \<Rightarrow> bool \<times> string \<times> validation_details option" where
  "validate_composition drug_name provided_composition dataset_composition =
     (case ingredient_names provided_composition of
        Inl e \<Rightarrow> (False, ''Validation error: '' @ str_exc e, None)
      | Inr provided_names \<Rightarrow>
     (case ingredient_names dataset_composition of
        Inl e \<Rightarrow> (False, ''Validation error: '' @ str_exc e, None)
      | Inr dataset_names \<Rightarrow>
          (let missing_ingredients = dataset_names - provided_names;
               extra_ingredients = provided_names - dataset_names;
               common_ingredients = provided_names \<inter> dataset_names;
               match_percentage =
                 (if card dataset_names > 0
                  then (of_nat (card common_ingredients) / of_nat (card dataset_names)) * 100
                  else 0);
               is_valid = (match_percentage \<ge> 90 \<and> card missing_ingredients = 0);
               message =
                 (if is_valid
                  then ''Composition validated successfully ('' @ format_1f match_percentage
                         @ ''% match)''
                  else ''Composition validation failed ('' @ format_1f match_percentage
                         @ ''% match)'')
           in (is_valid, message,
               Some \<lparr> matchPercentage = match_percentage,
                      missingIngredients = missing_ingredients,
                      extraIngredients = extra_ingredients,
                      totalProvidedIngredients = card provided_names,
                      totalExpectedIngredients = card dataset_names \<rparr>))))"

section \<open>Drug management: \<open>routes/drugs.py\<close>\<close>

text \<open>
  A route takes the store and returns the store as it leaves it, the calls it made to the
  ledger service that build a transaction, and its response or the exception it raises.
\<close>

datatype ledger_call =
    RegisterDrugCall string string string int int string
  | TransferOwnershipCall string string string string

record validation_response =
  vr_isValid :: bool
  vr_message :: string
  vr_matchPercentage :: "rat option"
  vr_missingIngredients :: "string set"
  vr_extraIngredients :: "string set"

definition validate_drug_composition ::
  "database \<Rightarrow> string \<Rightarrow> pydict \<Rightarrow> py_exception + validation_response" where
  "validate_drug_composition db drugName composition =
     (case find_one (\<lambda>d. d_drugName d = drugName) (drug_composition_dataset db) of
        None \<Rightarrow>
          Inl (HTTPException 404 (''No standard composition found for drug: '' @ drugName))
      | Some dataset_entry \<Rightarrow>
          (case validate_composition drugName composition (d_standardComposition dataset_entry) of
             (is_valid, message, details) \<Rightarrow>
               Inr \<lparr> vr_isValid = is_valid, vr_message = message,
                     vr_matchPercentage = map_option matchPercentage details,
                     vr_missingIngredients =
                       (case details of None \<Rightarrow> {} | Some d \<Rightarrow> missingIngredients d),
                     vr_extraIngredients =
                       (case details of None \<Rightarrow> {} | Some d \<Rightarrow> extraIngredients d) \<rparr>))"

record registration_request =
  rq_batchId :: string
  rq_drugName :: string
  rq_composition :: pydict
  rq_manufactureDate :: int
  rq_expiryDate :: int
  rq_manufacturerAddress :: string

record registration_response =
  rr_success :: bool
  rr_message :: string
  rr_batchId :: string
  rr_compositionHash :: string
  rr_transactionHash :: "string option"

type_synonym 'a outcome = "database \<times> ledger_call list \<times> (py_exception + 'a)"

text \<open>
  \<open>register_drug\<close>, with \<open>datetime.utcnow()\<close> as the argument \<open>utcnow\<close>.
  \<open>drug_data.composition.dict()\<close> builds a fresh dict at each use, so what the hashing
  does to its argument is not seen by the documents stored.
\<close>

definition register_drug ::
  "(string \<Rightarrow> string) \<Rightarrow> contract \<Rightarrow> database \<Rightarrow> int \<Rightarrow> registration_request
     \<Rightarrow> registration_response outcome" where
  "register_drug sha256_hexdigest c db utcnow drug_data =
     (case find_one (\<lambda>d. s_batchId d = rq_batchId drug_data) (drug_composition_storage db) of
        Some existing_batch \<Rightarrow> (db, [], Inl (HTTPException 400 ''Batch ID already exists''))
      | None \<Rightarrow>
     (let manufacturer =
            find_one (\<lambda>u. u_walletAddress u = rq_manufacturerAddress drug_data) (users db)
      in if (case manufacturer of None \<Rightarrow> True | Some m \<Rightarrow> u_role m \<noteq> ''MANUFACTURER'')
         then (db, [], Inl (HTTPException 403 ''Only registered manufacturers can register drugs''))
         else
     (let dataset_entry =
            find_one (\<lambda>d. d_drugName d = rq_drugName drug_data) (drug_composition_dataset db);
          validation =
            (case dataset_entry of
               None \<Rightarrow> None
             | Some entry \<Rightarrow>
                 (case validate_composition (rq_drugName drug_data) (rq_composition drug_data)
                         (d_standardComposition entry) of
                    (is_valid, message, details) \<Rightarrow>
                      (if is_valid then None else Some message)))
      in case validation of
           Some message \<Rightarrow>
             (db, [], Inl (HTTPException 400 (''Composition validation failed: '' @ message)))
         | None \<Rightarrow>
     (case generate_composition_hash sha256_hexdigest (rq_composition drug_data) of
        Inl e \<Rightarrow> (db, [], Inl (HTTPException 500 (''Drug registration failed: '' @ str_exc e)))
      | Inr (sorted_composition, composition_hash) \<Rightarrow>
     (let call = RegisterDrugCall (rq_batchId drug_data) (rq_drugName drug_data) composition_hash
                   (rq_manufactureDate drug_data) (rq_expiryDate drug_data)
                   (rq_manufacturerAddress drug_data)
      in case service_register_drug c (rq_batchId drug_data) (rq_drugName drug_data)
                composition_hash (rq_manufactureDate drug_data) (rq_expiryDate drug_data)
                (rq_manufacturerAddress drug_data) of
           TxFailed err \<Rightarrow>
             (db, [call], Inl (HTTPException 500 (''Blockchain registration failed: '' @ err)))
         | TxOk transaction \<Rightarrow>
             (let composition_doc =
                    \<lparr> s_batchId = rq_batchId drug_data, s_drugName = rq_drugName drug_data,
                      s_fullComposition = rq_composition drug_data,
                      s_compositionHash = composition_hash,
                      s_manufacturer = rq_manufacturerAddress drug_data,
                      s_manufactureDate = rq_manufactureDate drug_data,
                      s_expiryDate = rq_expiryDate drug_data,
                      s_registrationTimestamp = utcnow \<rparr>;
                  batch_record =
                    \<lparr> b_batchId = rq_batchId drug_data, b_drugName = rq_drugName drug_data,
                      b_manufacturer = lower (rq_manufacturerAddress drug_data),
                      b_currentOwner = lower (rq_manufacturerAddress drug_data),
                      b_status = ''ACTIVE'',
                      b_manufactureDate = rq_manufactureDate drug_data,
                      b_expiryDate = rq_expiryDate drug_data,
                      b_createdAt = utcnow, b_updatedAt = utcnow \<rparr>;
                  db' = db\<lparr> drug_composition_storage :=
                                insert_one composition_doc (drug_composition_storage db),
                              drug_batches := insert_one batch_record (drug_batches db) \<rparr>
              in (db', [call],
                  Inr \<lparr> rr_success = True,
                        rr_message =
                          ''Drug registered successfully. Sign the transaction in MetaMask.'',
                        rr_batchId = rq_batchId drug_data,
                        rr_compositionHash = composition_hash,
                        rr_transactionHash = None \<rparr>)))))))"

record transfer_request =
  tr_batchId :: string
  tr_fromAddress :: string
  tr_toAddress :: string
  tr_location :: string

record transfer_response =
  ts_success :: bool
  ts_message :: string
  ts_batchId :: string
  ts_transactionHash :: "string option"

definition valid_transfers :: "(string \<times> string) list" where
  "valid_transfers =
     [(''MANUFACTURER'', ''DISTRIBUTOR''),
      (''DISTRIBUTOR'', ''PHARMACY''),
      (''DISTRIBUTOR'', ''DISTRIBUTOR'')]"

text \<open>
  \<open>transfer_ownership\<close>. The statements run in the order of the source: the lookup of the
  batch, the \<open>update_one\<close> that sets \<open>currentOwner\<close>, and only then the test of the lookup.
\<close>

definition transfer_ownership ::
  "contract \<Rightarrow> database \<Rightarrow> int \<Rightarrow> transfer_request \<Rightarrow> transfer_response outcome" where
  "transfer_ownership c db utcnow transfer_data =
     (let batch = find_one (\<lambda>d. b_batchId d = tr_batchId transfer_data) (drug_batches db);
          db1 = db\<lparr> drug_batches :=
                       update_one (\<lambda>d. b_batchId d = tr_batchId transfer_data)
                         (\<lambda>d. d\<lparr> b_currentOwner := lower (tr_toAddress transfer_data),
                                  b_updatedAt := utcnow \<rparr>)
                         (drug_batches db) \<rparr>
      in case batch of
           None \<Rightarrow> (db1, [], Inl (HTTPException 404 ''Batch ID not found''))
         | Some found \<Rightarrow>
     (let from_address = lower (tr_fromAddress transfer_data);
          to_address = lower (tr_toAddress transfer_data);
          from_user = find_one (\<lambda>u. u_walletAddress u = from_address) (users db1);
          to_user = find_one (\<lambda>u. u_walletAddress u = to_address) (users db1)
      in case from_user of
           None \<Rightarrow> (db1, [], Inl (HTTPException 404 ''One or both users not found''))
         | Some fu \<Rightarrow>
     (case to_user of
           None \<Rightarrow> (db1, [], Inl (HTTPException 404 ''One or both users not found''))
         | Some tu \<Rightarrow>
     (let from_role = u_role fu;
          to_role = u_role tu
      in if (from_role, to_role) \<notin> set valid_transfers
         then (db1, [],
               Inl (HTTPException 403
                      (''Invalid transfer: '' @ from_role @ '' cannot transfer to '' @ to_role)))
         else
     (let call = TransferOwnershipCall (tr_batchId transfer_data) (tr_toAddress transfer_data)
                   (tr_location transfer_data) (tr_fromAddress transfer_data)
      in case service_transfer_ownership c (tr_batchId transfer_data)
                (tr_toAddress transfer_data) (tr_location transfer_data)
                (tr_fromAddress transfer_data) of
           TxFailed err \<Rightarrow>
             (db1, [call], Inl (HTTPException 500 (''Blockchain transfer failed: '' @ err)))
         | TxOk transaction \<Rightarrow>
             (db1, [call],
              Inr \<lparr> ts_success = True,
                    ts_message =
                      ''Ownership transfer initiated. Sign the transaction in MetaMask.'',
                    ts_batchId = tr_batchId transfer_data,
                    ts_transactionHash = None \<rparr>))))))"

section \<open>User registration: \<open>routes/auth.py\<close>\<close>

record user_create =
  uc_walletAddress :: string
  uc_role :: string
  uc_name :: string

text \<open>
  The response of \<open>register_user\<close>; the id the store gives the new document is left out.
\<close>

record user_registered =
  ur_success :: bool
  ur_message :: string
  ur_walletAddress :: string
  ur_role :: string

text \<open>
  \<open>register_user\<close> looks the wallet address up and stores it as it is given; the role is
  the value of a \<open>RoleEnum\<close>.
\<close>

definition register_user ::
  "database \<Rightarrow> user_create \<Rightarrow> database \<times> (py_exception + user_registered)" where
  "register_user db user =
     (case find_one (\<lambda>u. u_walletAddress u = uc_walletAddress user) (users db) of
        Some existing_user \<Rightarrow>
          (db, Inl (HTTPException 400 ''User with this wallet address already registered''))
      | None \<Rightarrow>
          (let user_doc = \<lparr> u_walletAddress = uc_walletAddress user, u_role = uc_role user,
                            u_name = uc_name user, u_isRegistered = True \<rparr>
           in (db\<lparr> users := insert_one user_doc (users db) \<rparr>,
               Inr \<lparr> ur_success = True, ur_message = ''User registered successfully'',
                     ur_walletAddress = uc_walletAddress user, ur_role = uc_role user \<rparr>)))"

section \<open>Batch verification: \<open>batch_verify_drugs\<close>\<close>

record batch_item =
  i_batchId :: string
  i_isGenuine :: bool
  i_status :: string
  i_error :: "string option"

definition error_item :: "string \<Rightarrow> py_exception \<Rightarrow> batch_item" where
  "error_item batch_id e =
     \<lparr> i_batchId = batch_id, i_isGenuine = False, i_status = ''ERROR'',
       i_error = Some (str_exc e) \<rparr>"

text \<open>
  One turn of the loop: the inner \<open>try\<close> covers the call of \<open>verify_drug\<close> and the two
  attribute reads \<open>verification.isGenuine\<close> and \<open>verification.status\<close>.
\<close>

definition verify_item :: "contract \<Rightarrow> database \<Rightarrow> int \<Rightarrow> string \<Rightarrow> batch_item" where
  "verify_item c db now batch_id =
     (case verify_drug c db now batch_id of
        Inl e \<Rightarrow> error_item batch_id e
      | Inr verification \<Rightarrow>
          (case getattr verification v_isGenuine ''isGenuine'' of
             Inl e \<Rightarrow> error_item batch_id e
           | Inr is_genuine \<Rightarrow>
               (case getattr verification v_status ''status'' of
                  Inl e \<Rightarrow> error_item batch_id e
                | Inr status_text \<Rightarrow>
                    \<lparr> i_batchId = batch_id, i_isGenuine = is_genuine,
                      i_status = status_text, i_error = None \<rparr>)))"

record batch_response =
  br_success :: bool
  br_totalBatches :: nat
  br_results :: "batch_item list"

definition batch_verify_drugs ::
  "contract \<Rightarrow> database \<Rightarrow> int \<Rightarrow> string list \<Rightarrow> py_exception + batch_response" where
  "batch_verify_drugs c db now batch_ids =
     Inr \<lparr> br_success = True, br_totalBatches = length batch_ids,
           br_results = map (verify_item c db now) batch_ids \<rparr>"

section \<open>Audit: \<open>routes/audit.py\<close>\<close>

record audit_statistics =
  totalDrugs :: nat
  totalUsers :: nat
  totalTransfers :: nat
  drugsWithAnomalies :: nat
  expiredDrugs :: nat

text \<open>
  One turn of the loop of \<open>get_audit_statistics\<close> on the pair
  \<open>(drugs_with_anomalies, expired_drugs)\<close>. The service's \<open>verify_drug\<close> catches its own
  exceptions, so the bare \<open>except\<close> of the loop is never entered.
\<close>

definition audit_step :: "contract \<Rightarrow> int \<Rightarrow> storage_doc \<Rightarrow> nat \<times> nat \<Rightarrow> nat \<times> nat" where
  "audit_step c current_timestamp drug counters =
     (let drugs_with_anomalies = fst counters;
          expired_drugs = snd counters;
          expired_drugs = (if s_expiryDate drug < current_timestamp
                           then expired_drugs + 1 else expired_drugs);
          drugs_with_anomalies =
            (case service_verify_drug c (s_batchId drug) of
               VerifyOk verification \<Rightarrow>
                 (if t_transferCount verification < 2
                  then drugs_with_anomalies + 1 else drugs_with_anomalies)
             | VerifyFailed e \<Rightarrow> drugs_with_anomalies + 1)
      in (drugs_with_anomalies, expired_drugs))"

text \<open>What a turn of the loop counts as an anomaly, as a predicate of the stored document.\<close>

definition ledger_anomalous :: "contract \<Rightarrow> storage_doc \<Rightarrow> bool" where
  "ledger_anomalous c drug =
     (case service_verify_drug c (s_batchId drug) of
        VerifyOk verification \<Rightarrow> t_transferCount verification < 2
      | VerifyFailed e \<Rightarrow> True)"

text \<open>\<open>to_list(length=1000)\<close> reads at most the first 1000 documents.\<close>

definition get_audit_statistics ::
  "contract \<Rightarrow> database \<Rightarrow> int \<Rightarrow> py_exception + audit_statistics" where
  "get_audit_statistics c db now =
     (let total_drugs_db = length (drug_composition_storage db);
          total_users = length (users db);
          drugs = take 1000 (drug_composition_storage db);
          counters = fold (audit_step c now) drugs (0, 0)
      in Inr \<lparr> totalDrugs = total_drugs_db, totalUsers = total_users, totalTransfers = 0,
               drugsWithAnomalies = fst counters, expiredDrugs = snd counters \<rparr>)"

record audit_result =
  a_batchId :: string
  a_hasAnomalies :: bool
  a_anomalyType :: string
  a_ownershipCount :: int
  a_drugName :: string
  a_manufacturer :: string
  a_currentOwner :: string

text \<open>
  One turn of the loop of \<open>get_drugs_with_anomalies\<close> on the list \<open>anomalous_drugs\<close>.
  As in the statistics, the \<open>except\<close> of the loop is never entered.
\<close>

definition anomaly_step ::
  "contract \<Rightarrow> int \<Rightarrow> storage_doc \<Rightarrow> audit_result list \<Rightarrow> audit_result list" where
  "anomaly_step c current_timestamp drug anomalous_drugs =
     (let expired = (s_expiryDate drug < current_timestamp);
          has_anomaly = expired;
          anomaly_type = (if expired then ''Expired'' else ''None'')
      in case service_verify_drug c (s_batchId drug) of
           VerifyOk verification \<Rightarrow>
             (let transfer_count = t_transferCount verification;
                  incomplete = (transfer_count < 2 \<and> \<not> has_anomaly);
                  has_anomaly = (if incomplete then True else has_anomaly);
                  anomaly_type =
                    (if incomplete then ''Incomplete ownership chain'' else anomaly_type)
              in if has_anomaly
                 then anomalous_drugs @
                        [\<lparr> a_batchId = s_batchId drug, a_hasAnomalies = True,
                           a_anomalyType = anomaly_type, a_ownershipCount = transfer_count,
                           a_drugName = s_drugName drug, a_manufacturer = s_manufacturer drug,
                           a_currentOwner = t_currentOwner verification \<rparr>]
                 else anomalous_drugs)
         | VerifyFailed e \<Rightarrow>
             anomalous_drugs @
               [\<lparr> a_batchId = s_batchId drug, a_hasAnomalies = True,
                  a_anomalyType = ''Blockchain verification failed'', a_ownershipCount = 0,
                  a_drugName = s_drugName drug, a_manufacturer = s_manufacturer drug,
                  a_currentOwner = ''Unknown'' \<rparr>])"

definition get_drugs_with_anomalies ::
  "contract \<Rightarrow> database \<Rightarrow> int \<Rightarrow> py_exception + audit_result list" where
  "get_drugs_with_anomalies c db now =
     Inr (fold (anomaly_step c now) (take 1000 (drug_composition_storage db)) [])"

section \<open>Test doubles\<close>

text \<open>
  A ledger given by two tables: a batch id outside a table makes the contract call raise,
  as a reverted call does. Building a transaction always succeeds.
\<close>

definition ledger_of ::
  "(string \<times> drug_tuple) list \<Rightarrow> (string \<times> raw_ownership list) list \<Rightarrow> contract" where
  "ledger_of drugs histories =
     \<lparr> verifyDrug = (\<lambda>b. case map_of drugs b of
                           None \<Rightarrow> Inl (Exception ''execution reverted'')
                         | Some t \<Rightarrow> Inr t),
       getDrugHistory = (\<lambda>b. case map_of histories b of
                           None \<Rightarrow> Inl (Exception ''execution reverted'')
                         | Some h \<Rightarrow> Inr h),
       build_registerDrug = (\<lambda>b n h m e a. Inr ''tx''),
       build_transferOwnership = (\<lambda>b n l c. Inr ''tx'') \<rparr>"

definition test_tuple :: "string \<Rightarrow> int \<Rightarrow> int \<Rightarrow> drug_tuple" where
  "test_tuple h expiry n =
     \<lparr> t_isGenuine = True, t_drugName = ''Aspirin'', t_manufacturer = ''0xm'',
       t_compositionHash = h, t_manufactureDate = 1000, t_expiryDate = expiry,
       t_currentOwner = ''0xp'', t_transferCount = n \<rparr>"

definition test_doc :: "string \<Rightarrow> string \<Rightarrow> int \<Rightarrow> storage_doc" where
  "test_doc b h expiry =
     \<lparr> s_batchId = b, s_drugName = ''Aspirin'', s_fullComposition = [],
       s_compositionHash = h, s_manufacturer = ''0xm'', s_manufactureDate = 1000,
       s_expiryDate = expiry, s_registrationTimestamp = 1000 \<rparr>"

definition test_store :: "storage_doc list \<Rightarrow> database" where
  "test_store docs =
     \<lparr> users = [], drug_composition_dataset = [], drug_composition_storage = docs,
       drug_batches = [] \<rparr>"

definition test_transfer :: "string \<Rightarrow> string \<Rightarrow> nat \<Rightarrow> nat \<Rightarrow> raw_ownership" where
  "test_transfer a b ra rb =
     \<lparr> r_from = a, r_to = b, r_timestamp = 1500, r_location = ''Pune'',
       r_fromRole = ra, r_toRole = rb \<rparr>"

definition test_user :: "string \<Rightarrow> string \<Rightarrow> user_doc" where
  "test_user a role =
     \<lparr> u_walletAddress = a, u_role = role, u_name = ''name'', u_isRegistered = True \<rparr>"

definition test_batch :: "string \<Rightarrow> string \<Rightarrow> batch_doc" where
  "test_batch b owner =
     \<lparr> b_batchId = b, b_drugName = ''Aspirin'', b_manufacturer = ''0xm'',
       b_currentOwner = owner, b_status = ''ACTIVE'', b_manufactureDate = 1000,
       b_expiryDate = 2000, b_createdAt = 1000, b_updatedAt = 1000 \<rparr>"

text \<open>A store with one batch \<open>B1\<close>, held by the manufacturer, and one user of each role.\<close>

definition supply_db :: database where
  "supply_db =
     \<lparr> users = [test_user ''0xm'' ''MANUFACTURER'', test_user ''0xd'' ''DISTRIBUTOR'',
                test_user ''0xp'' ''PHARMACY''],
       drug_composition_dataset = [],
       drug_composition_storage = [test_doc ''B1'' ''ab'' 2000],
       drug_batches = [test_batch ''B1'' ''0xm''] \<rparr>"

definition test_request :: "string \<Rightarrow> string \<Rightarrow> string \<Rightarrow> transfer_request" where
  "test_request b a a' =
     \<lparr> tr_batchId = b, tr_fromAddress = a, tr_toAddress = a', tr_location = ''Pune'' \<rparr>"

text \<open>
  A ledger on which \<open>B1\<close> has the complete chain: registration, then manufacturer to
  distributor, then distributor to pharmacy.
\<close>

definition genuine_ledger :: contract where
  "genuine_ledger =
     ledger_of [(''B1'', test_tuple ''ab'' 2000 2)]
       [(''B1'', [test_transfer ''0xm'' ''0xm'' 1 1, test_transfer ''0xm'' ''0xd'' 1 2,
                  test_transfer ''0xd'' ''0xp'' 2 3])]"

text \<open>Compositions as \<open>DrugComposition.dict()\<close> builds them.\<close>

definition ingredient :: "string \<Rightarrow> string \<Rightarrow> pyval" where
  "ingredient n q = PDict [(''name'', PStr n), (''quantity'', PStr q), (''percentage'', PNone)]"

definition composition_of :: "string list \<Rightarrow> pydict" where
  "composition_of ns = [(''ingredients'', PList (map (\<lambda>n. ingredient n ''1mg'') ns))]"

definition ref10 :: pydict where
  "ref10 = composition_of [''A'', ''B'', ''C'', ''D'', ''E'', ''F'', ''G'', ''H'', ''I'', ''J'']"

definition sub9 :: pydict where
  "sub9 = composition_of [''A'', ''B'', ''C'', ''D'', ''E'', ''F'', ''G'', ''H'', ''I'']"

definition sub8 :: pydict where
  "sub8 = composition_of [''A'', ''B'', ''C'', ''D'', ''E'', ''F'', ''G'', ''H'']"

text \<open>Two ingredients whose names differ in case only, in the two orders.\<close>

definition tie_first :: pydict where
  "tie_first =
     [(''ingredients'', PList [ingredient ''Aspirin'' ''100mg'', ingredient ''aspirin'' ''200mg''])]"

definition tie_second :: pydict where
  "tie_second =
     [(''ingredients'', PList [ingredient ''aspirin'' ''200mg'', ingredient ''Aspirin'' ''100mg''])]"

text \<open>A registration of batch \<open>B2\<close> of a drug the dataset does not know.\<close>

definition new_request :: registration_request where
  "new_request =
     \<lparr> rq_batchId = ''B2'', rq_drugName = ''Novel'', rq_composition = sub9,
       rq_manufactureDate = 1000, rq_expiryDate = 2000, rq_manufacturerAddress = ''0xm'' \<rparr>"

text \<open>A stand-in for the digest in evaluations: the length of the text, in decimal.\<close>

definition test_digest :: "string \<Rightarrow> string" where
  "test_digest s = str_nat (length s)"

text \<open>
  The accounts of \<open>scripts/register_test_users.py\<close>: the manufacturer and the distributor
  in lower case, the pharmacy with the capitals of its checksum.
\<close>

definition manufacturer_account :: string where
  "manufacturer_account = ''0x992e98ff8098a6b23e96e8b8b2a49ddc020264c34580362bc3a2d406cf13577e''"

definition distributor_account :: string where
  "distributor_account = ''0x59c0241f49df5ad53f3a2248c11a7a9bf05468e5ffdce3d1590f49a1f5dd564c''"

definition pharmacy_account :: string where
  "pharmacy_account = ''0xBc36A1AE6f454ce4250f04F1dA901AaF87Cd6b36''"

definition new_user :: "string \<Rightarrow> string \<Rightarrow> user_create" where
  "new_user a role = \<lparr> uc_walletAddress = a, uc_role = role, uc_name = ''name'' \<rparr>"

text \<open>A store with batch \<open>B1\<close>, held by the distributor, and no user yet.\<close>

definition batch_only_db :: database where
  "batch_only_db =
     \<lparr> users = [], drug_composition_dataset = [],
       drug_composition_storage = [test_doc ''B1'' ''ab'' 2000],
       drug_batches = [test_batch ''B1'' distributor_account] \<rparr>"

text \<open>The same store after \<open>register_user\<close> has registered the three accounts.\<close>

definition registered_db :: database where
  "registered_db =
     fst (register_user
       (fst (register_user
         (fst (register_user batch_only_db (new_user manufacturer_account ''MANUFACTURER'')))
         (new_user distributor_account ''DISTRIBUTOR'')))
       (new_user pharmacy_account ''PHARMACY''))"

section \<open>Properties of the verification engine\<close>

lemma check_roles_status: "snd (check_roles h a) = snd a"
proof -
  have "snd (fold (\<lambda>i a. if o_fromRole (h ! i) = o_toRole (h ! i)
                  then (fst a @ [same_role_msg i], snd a) else a) is a) = snd a" for "is"
    by (induction "is" arbitrary: a) auto
  then show ?thesis by (simp add: check_roles_def)
qed

lemma check_zero_address_fake: "snd a = ''FAKE'' \<Longrightarrow> snd (check_zero_address h a) = ''FAKE''"
  unfolding check_zero_address_def
  by (induction h arbitrary: a) auto

lemma final_status_fake: "snd a = ''FAKE'' \<Longrightarrow> snd (final_status a) = ''FAKE''"
  by (simp add: final_status_def)

lemma check_roles_mono: "set (fst a) \<subseteq> set (fst (check_roles h a))"
proof -
  have "set (fst a) \<subseteq> set (fst (fold (\<lambda>i a. if o_fromRole (h ! i) = o_toRole (h ! i)
                  then (fst a @ [same_role_msg i], snd a) else a) is a))" for "is"
    by (induction "is" arbitrary: a) (auto, fastforce)
  then show ?thesis by (simp add: check_roles_def)
qed

lemma check_zero_address_mono: "set (fst a) \<subseteq> set (fst (check_zero_address h a))"
  unfolding check_zero_address_def
  by (induction h arbitrary: a) (auto, fastforce)

lemma final_status_anomalies: "fst (final_status a) = fst a"
  by (simp add: final_status_def)

lemma check_roles_none:
  assumes "\<And>i. 1 \<le> i \<Longrightarrow> i < length h \<Longrightarrow> o_fromRole (h ! i) \<noteq> o_toRole (h ! i)"
  shows "check_roles h a = a"
proof -
  have "set is \<subseteq> {1..<length h} \<Longrightarrow> fold (\<lambda>i a. if o_fromRole (h ! i) = o_toRole (h ! i)
                  then (fst a @ [same_role_msg i], snd a) else a) is a = a" for "is"
    using assms by (induction "is" arbitrary: a) auto
  then show ?thesis by (simp add: check_roles_def)
qed

lemma check_zero_address_none:
  "list_all (\<lambda>r. o_to r \<noteq> zero_address) h \<Longrightarrow> check_zero_address h a = a"
  unfolding check_zero_address_def
  by (induction h arbitrary: a) auto

lemma service_verify_drug_history_update [simp]:
  "service_verify_drug (c\<lparr>getDrugHistory := g\<rparr>) batch_id = service_verify_drug c batch_id"
  by (simp add: service_verify_drug_def)

text \<open>
  C6. When the ledger has no record of the batch id (the service's verify call answers
  without success), \<open>verify_drug\<close> returns, and does not raise, the verdict with status
  FAKE, isGenuine false, the single anomaly "Batch ID not found on blockchain" and every
  other field Unknown, empty or zero. The verdict is the same whatever the history call
  \<open>g\<close> would answer and whatever the store \<open>db\<close> holds: neither is consulted.
\<close>

theorem verify_drug_unknown_batch:
  assumes "service_verify_drug c batch_id = VerifyFailed e"
  shows "verify_drug (c\<lparr>getDrugHistory := g\<rparr>) db now batch_id =
     Inr (Dict \<lparr> v_isGenuine = False, v_status = ''FAKE'', v_batchId = batch_id,
                 v_drugName = ''Unknown'', v_manufacturer = ''Unknown'',
                 v_compositionHash = [], v_currentOwner = [],
                 v_manufactureDate = 0, v_expiryDate = 0, v_transferCount = 0,
                 v_ownershipHistory = [], v_composition = None,
                 v_anomalies = [''Batch ID not found on blockchain''] \<rparr>)"
  using assms by (simp add: verify_drug_def not_found_msg_def)

theorem verify_drug_unknown_batch_witness:
  "service_verify_drug (ledger_of [] []) ''does-not-exist'' = VerifyFailed ''execution reverted''
   \<and> verify_drug ((ledger_of [] [])\<lparr>getDrugHistory := (\<lambda>b. Inr [])\<rparr>)
        (test_store [test_doc ''does-not-exist'' ''ab'' 2000]) 1700 ''does-not-exist'' =
     Inr (Dict \<lparr> v_isGenuine = False, v_status = ''FAKE'', v_batchId = ''does-not-exist'',
                 v_drugName = ''Unknown'', v_manufacturer = ''Unknown'',
                 v_compositionHash = [], v_currentOwner = [],
                 v_manufactureDate = 0, v_expiryDate = 0, v_transferCount = 0,
                 v_ownershipHistory = [], v_composition = None,
                 v_anomalies = [''Batch ID not found on blockchain''] \<rparr>)"
proof -
  have h: "service_verify_drug (ledger_of [] []) ''does-not-exist''
             = VerifyFailed ''execution reverted''"
    by (simp add: service_verify_drug_def ledger_of_def str_exc_def)
  from h verify_drug_unknown_batch [OF h] show ?thesis by (rule conjI)
qed

text \<open>
  C1. A batch found on the ledger whose off-chain record exists and whose stored composition
  hash differs, case-insensitively, from the ledger's gets the status FAKE and isGenuine
  false, with the mismatch anomaly listed, whatever the transfer count, the expiry date and
  the history are. Every check that runs after a check that set FAKE (the role check, the
  zero-address check, the final status) leaves the status FAKE.
\<close>

theorem verify_drug_hash_mismatch_fake:
  assumes found: "service_verify_drug c batch_id = VerifyOk r"
    and stored: "composition_data_of db batch_id = Some doc"
    and differs: "lower (s_compositionHash doc) \<noteq> lower (t_compositionHash r)"
  shows "(\<exists>v. verify_drug c db now batch_id = Inr (Dict v) \<and> v_status v = ''FAKE''
             \<and> v_isGenuine v = False \<and> hash_mismatch_msg \<in> set (v_anomalies v))
         \<and> (\<forall>h a. snd a = ''FAKE'' \<longrightarrow>
               snd (check_roles h a) = ''FAKE'' \<and> snd (check_zero_address h a) = ''FAKE''
               \<and> snd (final_status a) = ''FAKE'')"
proof (rule conjI)
  let ?h = "ownership_history_of c batch_id"
  let ?a3 = "check_hash (Some doc) r (check_chain r (check_expired r now ([], ''GENUINE'')))"
  have s3: "snd ?a3 = ''FAKE''" and m3: "hash_mismatch_msg \<in> set (fst ?a3)"
    using differs by (simp_all add: check_hash_def)
  have st: "snd (analyse r ?h (Some doc) now) = ''FAKE''"
    unfolding analyse_def
    by (intro final_status_fake check_zero_address_fake) (simp add: check_roles_status s3)
  have "hash_mismatch_msg \<in> set (fst (check_roles ?h ?a3))"
    using m3 check_roles_mono by blast
  then have "hash_mismatch_msg \<in> set (fst (check_zero_address ?h (check_roles ?h ?a3)))"
    using check_zero_address_mono by blast
  then have an: "hash_mismatch_msg \<in> set (fst (analyse r ?h (Some doc) now))"
    by (simp add: analyse_def final_status_anomalies)
  show "\<exists>v. verify_drug c db now batch_id = Inr (Dict v) \<and> v_status v = ''FAKE''
             \<and> v_isGenuine v = False \<and> hash_mismatch_msg \<in> set (v_anomalies v)"
    using st an found stored by (simp add: verify_drug_def Let_def)
next
  show "\<forall>h a. snd a = ''FAKE'' \<longrightarrow>
               snd (check_roles h a) = ''FAKE'' \<and> snd (check_zero_address h a) = ''FAKE''
               \<and> snd (final_status a) = ''FAKE''"
    by (simp add: check_roles_status check_zero_address_fake final_status_fake)
qed

lemma lower_cd_ab: "lower ''cd'' \<noteq> lower ''ab''"
  by code_simp

theorem verify_drug_hash_mismatch_fake_witness:
  "service_verify_drug
     (ledger_of [(''B1'', test_tuple ''ab'' 2000 2)]
        [(''B1'', [test_transfer ''0xm'' ''0xd'' 1 2, test_transfer ''0xd'' ''0xp'' 2 3])]) ''B1''
     = VerifyOk (test_tuple ''ab'' 2000 2)
   \<and> composition_data_of (test_store [test_doc ''B1'' ''cd'' 2000]) ''B1''
       = Some (test_doc ''B1'' ''cd'' 2000)
   \<and> lower (s_compositionHash (test_doc ''B1'' ''cd'' 2000))
       \<noteq> lower (t_compositionHash (test_tuple ''ab'' 2000 2))
   \<and> (\<exists>v. verify_drug
            (ledger_of [(''B1'', test_tuple ''ab'' 2000 2)]
              [(''B1'', [test_transfer ''0xm'' ''0xd'' 1 2, test_transfer ''0xd'' ''0xp'' 2 3])])
            (test_store [test_doc ''B1'' ''cd'' 2000]) 1700 ''B1'' = Inr (Dict v)
          \<and> v_status v = ''FAKE'' \<and> v_isGenuine v = False
          \<and> hash_mismatch_msg \<in> set (v_anomalies v))"
proof -
  let ?c = "ledger_of [(''B1'', test_tuple ''ab'' 2000 2)]
        [(''B1'', [test_transfer ''0xm'' ''0xd'' 1 2, test_transfer ''0xd'' ''0xp'' 2 3])]"
  have h1: "service_verify_drug ?c ''B1'' = VerifyOk (test_tuple ''ab'' 2000 2)"
    by (simp add: service_verify_drug_def ledger_of_def)
  have h2: "composition_data_of (test_store [test_doc ''B1'' ''cd'' 2000]) ''B1''
       = Some (test_doc ''B1'' ''cd'' 2000)"
    by (simp add: composition_data_of_def find_one_def test_store_def test_doc_def)
  have h3: "lower (s_compositionHash (test_doc ''B1'' ''cd'' 2000))
       \<noteq> lower (t_compositionHash (test_tuple ''ab'' 2000 2))"
    by (simp add: test_doc_def test_tuple_def lower_cd_ab)
  from h1 h2 h3 verify_drug_hash_mismatch_fake [OF h1 h2 h3, THEN conjunct1, of 1700]
  show ?thesis by (intro conjI)
qed

text \<open>
  C7. A batch found on the ledger with fewer than two transfers, not expired, with no hash
  mismatch, with no same-role transfer at an index from 1 on and no transfer to the zero
  address gets the status INCOMPLETE_CHAIN, isGenuine false, and the incomplete-chain
  message as its only anomaly.
\<close>

theorem verify_drug_incomplete_chain:
  assumes found: "service_verify_drug c batch_id = VerifyOk r"
    and few: "t_transferCount r < 2"
    and fresh: "\<not> t_expiryDate r < now"
    and same_hash: "case composition_data_of db batch_id of
                      None \<Rightarrow> True
                    | Some doc \<Rightarrow> lower (s_compositionHash doc) = lower (t_compositionHash r)"
    and roles: "\<forall>i. 1 \<le> i \<and> i < length (ownership_history_of c batch_id) \<longrightarrow>
                  o_fromRole (ownership_history_of c batch_id ! i)
                    \<noteq> o_toRole (ownership_history_of c batch_id ! i)"
    and nonzero: "list_all (\<lambda>record. o_to record \<noteq> zero_address) (ownership_history_of c batch_id)"
  shows "\<exists>v. verify_drug c db now batch_id = Inr (Dict v)
           \<and> v_status v = ''INCOMPLETE_CHAIN'' \<and> v_isGenuine v = False
           \<and> v_anomalies v = [incomplete_chain_msg]"
proof -
  let ?h = "ownership_history_of c batch_id"
  let ?d = "composition_data_of db batch_id"
  have a2: "check_chain r (check_expired r now ([], ''GENUINE''))
              = ([incomplete_chain_msg], ''GENUINE'')"
    using few fresh by (simp add: check_chain_def check_expired_def)
  have a3: "check_hash ?d r ([incomplete_chain_msg], ''GENUINE'')
              = ([incomplete_chain_msg], ''GENUINE'')"
    using same_hash by (cases ?d) (simp_all add: check_hash_def)
  have a4: "check_roles ?h ([incomplete_chain_msg], ''GENUINE'')
              = ([incomplete_chain_msg], ''GENUINE'')"
    using roles by (intro check_roles_none) simp
  have a5: "check_zero_address ?h ([incomplete_chain_msg], ''GENUINE'')
              = ([incomplete_chain_msg], ''GENUINE'')"
    using nonzero by (rule check_zero_address_none)
  have "analyse r ?h ?d now = ([incomplete_chain_msg], ''INCOMPLETE_CHAIN'')"
    by (simp add: analyse_def a2 a3 a4 a5 final_status_def)
  then show ?thesis
    using found by (simp add: verify_drug_def Let_def)
qed

theorem verify_drug_incomplete_chain_witness:
  "(\<exists>v. verify_drug
         (ledger_of [(''B1'', test_tuple ''ab'' 2000 1)]
            [(''B1'', [test_transfer ''0xm'' ''0xm'' 1 1, test_transfer ''0xm'' ''0xd'' 1 2])])
         (test_store [test_doc ''B1'' ''AB'' 2000]) 1700 ''B1'' = Inr (Dict v)
       \<and> v_status v = ''INCOMPLETE_CHAIN'' \<and> v_isGenuine v = False
       \<and> v_anomalies v = [incomplete_chain_msg])"
proof -
  let ?c = "ledger_of [(''B1'', test_tuple ''ab'' 2000 1)]
            [(''B1'', [test_transfer ''0xm'' ''0xm'' 1 1, test_transfer ''0xm'' ''0xd'' 1 2])]"
  let ?db = "test_store [test_doc ''B1'' ''AB'' 2000]"
  have h1: "service_verify_drug ?c ''B1'' = VerifyOk (test_tuple ''ab'' 2000 1)"
    by (simp add: service_verify_drug_def ledger_of_def)
  have h2: "t_transferCount (test_tuple ''ab'' 2000 1) < 2"
    by (simp add: test_tuple_def)
  have h3: "\<not> t_expiryDate (test_tuple ''ab'' 2000 1) < 1700"
    by (simp add: test_tuple_def)
  have l: "lower ''AB'' = lower ''ab''" by code_simp
  have h4: "case composition_data_of ?db ''B1'' of
                      None \<Rightarrow> True
                    | Some doc \<Rightarrow> lower (s_compositionHash doc)
                        = lower (t_compositionHash (test_tuple ''ab'' 2000 1))"
    by (simp add: composition_data_of_def find_one_def test_store_def test_doc_def
        test_tuple_def l)
  have hist: "ownership_history_of ?c ''B1'' =
      [format_record (test_transfer ''0xm'' ''0xm'' 1 1),
       format_record (test_transfer ''0xm'' ''0xd'' 1 2)]"
    by (simp add: ownership_history_of_def service_get_drug_history_def ledger_of_def)
  have r1: "o_fromRole (format_record (test_transfer ''0xm'' ''0xd'' 1 2))
              \<noteq> o_toRole (format_record (test_transfer ''0xm'' ''0xd'' 1 2))"
    by (simp add: format_record_def test_transfer_def role_enum_to_string_def)
  have h5: "\<forall>i. 1 \<le> i \<and> i < length (ownership_history_of ?c ''B1'') \<longrightarrow>
                  o_fromRole (ownership_history_of ?c ''B1'' ! i)
                    \<noteq> o_toRole (ownership_history_of ?c ''B1'' ! i)"
    unfolding hist using r1 by (auto simp: less_Suc_eq nth_Cons')
  have h6: "list_all (\<lambda>record. o_to record \<noteq> zero_address) (ownership_history_of ?c ''B1'')"
    unfolding hist by (simp add: format_record_def test_transfer_def zero_address_def)
  from verify_drug_incomplete_chain [OF h1 h2 h3 h4 h5 h6]
  show ?thesis .
qed

section \<open>Properties of the custody transfer\<close>

lemma update_one_no_match: "find_one p xs = None \<Longrightarrow> update_one p f xs = xs"
  unfolding find_one_def by (induction xs) (auto split: if_splits)

lemma valid_transfers_iff:
  "(a, b) \<in> set valid_transfers \<longleftrightarrow>
     (a = ''MANUFACTURER'' \<and> b = ''DISTRIBUTOR'') \<or> (a = ''DISTRIBUTOR'' \<and> b = ''PHARMACY'')
     \<or> (a = ''DISTRIBUTOR'' \<and> b = ''DISTRIBUTOR'')"
  by (auto simp: valid_transfers_def)

text \<open>
  The role check itself. For a transfer of an existing batch between two users that the
  route finds, which it looks up under their lower-cased addresses, the route raises the 403
  of the role check exactly when the pair of roles is none of MANUFACTURER to DISTRIBUTOR,
  DISTRIBUTOR to PHARMACY and DISTRIBUTOR to DISTRIBUTOR; in particular every pair from
  PHARMACY, and MANUFACTURER to PHARMACY, is rejected.
\<close>

theorem transfer_role_check:
  assumes batch: "find_one (\<lambda>d. b_batchId d = tr_batchId req) (drug_batches db) = Some b"
    and from_user:
      "find_one (\<lambda>u. u_walletAddress u = lower (tr_fromAddress req)) (users db) = Some fu"
    and to_user:
      "find_one (\<lambda>u. u_walletAddress u = lower (tr_toAddress req)) (users db) = Some tu"
  shows "((snd (snd (transfer_ownership c db utcnow req))
             = Inl (HTTPException 403
                      (''Invalid transfer: '' @ u_role fu @ '' cannot transfer to '' @ u_role tu)))
          = (\<not> ((u_role fu = ''MANUFACTURER'' \<and> u_role tu = ''DISTRIBUTOR'')
                \<or> (u_role fu = ''DISTRIBUTOR'' \<and> u_role tu = ''PHARMACY'')
                \<or> (u_role fu = ''DISTRIBUTOR'' \<and> u_role tu = ''DISTRIBUTOR''))))
         \<and> ((\<exists>detail. snd (snd (transfer_ownership c db utcnow req))
                         = Inl (HTTPException 403 detail))
            = (\<not> ((u_role fu = ''MANUFACTURER'' \<and> u_role tu = ''DISTRIBUTOR'')
                  \<or> (u_role fu = ''DISTRIBUTOR'' \<and> u_role tu = ''PHARMACY'')
                  \<or> (u_role fu = ''DISTRIBUTOR'' \<and> u_role tu = ''DISTRIBUTOR''))))
         \<and> (u_role fu = ''PHARMACY''
              \<or> (u_role fu = ''MANUFACTURER'' \<and> u_role tu = ''PHARMACY'')
            \<longrightarrow> (\<exists>detail. snd (snd (transfer_ownership c db utcnow req))
                              = Inl (HTTPException 403 detail)))"
  using assms
  by (auto simp: transfer_ownership_def Let_def valid_transfers_iff split: tx_result.splits)

theorem transfer_role_check_witness:
  "((\<exists>detail. snd (snd (transfer_ownership genuine_ledger supply_db 1800
                           (test_request ''B1'' ''0xM'' ''0xD'')))
                 = Inl (HTTPException 403 detail))
    = (\<not> ((u_role (test_user ''0xm'' ''MANUFACTURER'') = ''MANUFACTURER''
            \<and> u_role (test_user ''0xd'' ''DISTRIBUTOR'') = ''DISTRIBUTOR'')
          \<or> (u_role (test_user ''0xm'' ''MANUFACTURER'') = ''DISTRIBUTOR''
            \<and> u_role (test_user ''0xd'' ''DISTRIBUTOR'') = ''PHARMACY'')
          \<or> (u_role (test_user ''0xm'' ''MANUFACTURER'') = ''DISTRIBUTOR''
            \<and> u_role (test_user ''0xd'' ''DISTRIBUTOR'') = ''DISTRIBUTOR''))))"
proof -
  have h1: "find_one (\<lambda>d. b_batchId d = tr_batchId (test_request ''B1'' ''0xM'' ''0xD''))
              (drug_batches supply_db) = Some (test_batch ''B1'' ''0xm'')"
    by code_simp
  have h2: "find_one (\<lambda>u. u_walletAddress u
                = lower (tr_fromAddress (test_request ''B1'' ''0xM'' ''0xD'')))
              (users supply_db) = Some (test_user ''0xm'' ''MANUFACTURER'')"
    by code_simp
  have h3: "find_one (\<lambda>u. u_walletAddress u
                = lower (tr_toAddress (test_request ''B1'' ''0xM'' ''0xD'')))
              (users supply_db) = Some (test_user ''0xd'' ''DISTRIBUTOR'')"
    by code_simp
  from transfer_role_check [OF h1 h2 h3, THEN conjunct2, THEN conjunct1]
  show ?thesis .
qed

text \<open>
  C5. The three accounts are registered by \<open>register_user\<close>, which stores each address
  as it is given; the pharmacy's has capitals. The transfer of \<open>B1\<close> from the distributor
  to the pharmacy, a legal pair, does not pass: the route looks the pharmacy up under its
  lower-cased address, finds no user and raises 404. The transfer from the pharmacy to the
  distributor, an illegal pair, is rejected with the same 404 and not with the 403 of the
  role check.
\<close>

theorem transfer_registered_users_not_found:
  "users registered_db =
     [test_user manufacturer_account ''MANUFACTURER'', test_user distributor_account ''DISTRIBUTOR'',
      test_user pharmacy_account ''PHARMACY'']
   \<and> snd (snd (transfer_ownership genuine_ledger registered_db 1800
                   (test_request ''B1'' distributor_account pharmacy_account)))
       = Inl (HTTPException 404 ''One or both users not found'')
   \<and> snd (snd (transfer_ownership genuine_ledger registered_db 1800
                   (test_request ''B1'' pharmacy_account distributor_account)))
       = Inl (HTTPException 404 ''One or both users not found'')"
  by code_simp

text \<open>
  What holds of a rejected transfer: no transaction is built for the ledger, the checks of
  existence come before the role check, and a request for an unknown batch leaves the store
  as it was.
\<close>

lemma transfer_rejected_no_ledger_call:
  assumes "snd (snd (transfer_ownership c db utcnow req)) = Inl (HTTPException code detail)"
    and "code = 404 \<or> code = 403"
  shows "fst (snd (transfer_ownership c db utcnow req)) = []"
  using assms
  by (auto simp: transfer_ownership_def Let_def split: option.splits if_splits tx_result.splits)

lemma transfer_unknown_batch:
  assumes "find_one (\<lambda>d. b_batchId d = tr_batchId req) (drug_batches db) = None"
  shows "transfer_ownership c db utcnow req = (db, [], Inl (HTTPException 404 ''Batch ID not found''))"
  using assms by (simp add: transfer_ownership_def Let_def update_one_no_match)

lemma transfer_unknown_user:
  assumes "find_one (\<lambda>d. b_batchId d = tr_batchId req) (drug_batches db) = Some b"
    and "find_one (\<lambda>u. u_walletAddress u = lower (tr_fromAddress req)) (users db) = None
         \<or> find_one (\<lambda>u. u_walletAddress u = lower (tr_toAddress req)) (users db) = None"
  shows "snd (snd (transfer_ownership c db utcnow req))
           = Inl (HTTPException 404 ''One or both users not found'')"
  using assms by (auto simp: transfer_ownership_def Let_def split: option.splits)

text \<open>
  C3. The transfer of batch \<open>B1\<close> from the manufacturer to the pharmacy is rejected by the
  role check with 403 and builds no transaction, yet the store it leaves has the pharmacy as
  \<open>currentOwner\<close> of \<open>B1\<close> (and a new \<open>updatedAt\<close>): \<open>update_one\<close> ran before any check.
\<close>

theorem transfer_rejected_after_update:
  "transfer_ownership genuine_ledger supply_db 1800 (test_request ''B1'' ''0xm'' ''0xP'')
     = (supply_db\<lparr> drug_batches := [(test_batch ''B1'' ''0xp'')\<lparr> b_updatedAt := 1800 \<rparr>] \<rparr>, [],
        Inl (HTTPException 403 ''Invalid transfer: MANUFACTURER cannot transfer to PHARMACY''))
   \<and> map b_currentOwner (drug_batches supply_db) = [''0xm'']"
  by code_simp

section \<open>Properties of the registration\<close>

text \<open>
  C10. When the dataset has no entry for the drug name, registration of a new batch by a
  registered manufacturer does not validate the composition and raises no not-found error:
  once the composition is hashed and the ledger transaction built, it stores the composition
  document and the batch record and answers with success. The standalone validation route
  raises 404 for the same drug name.
\<close>

theorem register_without_reference:
  assumes no_entry:
      "find_one (\<lambda>d. d_drugName d = rq_drugName req) (drug_composition_dataset db) = None"
    and fresh:
      "find_one (\<lambda>d. s_batchId d = rq_batchId req) (drug_composition_storage db) = None"
    and maker:
      "find_one (\<lambda>u. u_walletAddress u = rq_manufacturerAddress req) (users db) = Some m"
    and role: "u_role m = ''MANUFACTURER''"
    and hashed: "generate_composition_hash H (rq_composition req) = Inr (sorted_composition, h)"
    and built: "service_register_drug c (rq_batchId req) (rq_drugName req) h
                  (rq_manufactureDate req) (rq_expiryDate req) (rq_manufacturerAddress req)
                = TxOk tx"
  shows "register_drug H c db utcnow req =
           (db\<lparr> drug_composition_storage := drug_composition_storage db @
                    [\<lparr> s_batchId = rq_batchId req, s_drugName = rq_drugName req,
                       s_fullComposition = rq_composition req, s_compositionHash = h,
                       s_manufacturer = rq_manufacturerAddress req,
                       s_manufactureDate = rq_manufactureDate req,
                       s_expiryDate = rq_expiryDate req, s_registrationTimestamp = utcnow \<rparr>],
                 drug_batches := drug_batches db @
                    [\<lparr> b_batchId = rq_batchId req, b_drugName = rq_drugName req,
                       b_manufacturer = lower (rq_manufacturerAddress req),
                       b_currentOwner = lower (rq_manufacturerAddress req),
                       b_status = ''ACTIVE'', b_manufactureDate = rq_manufactureDate req,
                       b_expiryDate = rq_expiryDate req, b_createdAt = utcnow,
                       b_updatedAt = utcnow \<rparr>] \<rparr>,
            [RegisterDrugCall (rq_batchId req) (rq_drugName req) h (rq_manufactureDate req)
               (rq_expiryDate req) (rq_manufacturerAddress req)],
            Inr \<lparr> rr_success = True,
                  rr_message = ''Drug registered successfully. Sign the transaction in MetaMask.'',
                  rr_batchId = rq_batchId req, rr_compositionHash = h,
                  rr_transactionHash = None \<rparr>)
         \<and> validate_drug_composition db (rq_drugName req) (rq_composition req) =
             Inl (HTTPException 404
                    (''No standard composition found for drug: '' @ rq_drugName req))"
  using assms
  by (simp add: register_drug_def validate_drug_composition_def Let_def insert_one_def)

theorem register_without_reference_witness:
  "snd (snd (register_drug test_digest genuine_ledger supply_db 1800 new_request)) =
     Inr \<lparr> rr_success = True,
           rr_message = ''Drug registered successfully. Sign the transaction in MetaMask.'',
           rr_batchId = rq_batchId new_request, rr_compositionHash = ''449'',
           rr_transactionHash = None \<rparr>
   \<and> validate_drug_composition supply_db (rq_drugName new_request) (rq_composition new_request) =
       Inl (HTTPException 404
              (''No standard composition found for drug: '' @ rq_drugName new_request))"
proof -
  have h1: "find_one (\<lambda>d. d_drugName d = rq_drugName new_request)
              (drug_composition_dataset supply_db) = None"
    by code_simp
  have h2: "find_one (\<lambda>d. s_batchId d = rq_batchId new_request)
              (drug_composition_storage supply_db) = None"
    by code_simp
  have h3: "find_one (\<lambda>u. u_walletAddress u = rq_manufacturerAddress new_request)
              (users supply_db) = Some (test_user ''0xm'' ''MANUFACTURER'')"
    by code_simp
  have h4: "u_role (test_user ''0xm'' ''MANUFACTURER'') = ''MANUFACTURER''"
    by (simp add: test_user_def)
  have h5: "generate_composition_hash test_digest (rq_composition new_request)
              = Inr (sub9, ''449'')"
    by code_simp
  have h6: "service_register_drug genuine_ledger (rq_batchId new_request)
              (rq_drugName new_request) ''449'' (rq_manufactureDate new_request)
              (rq_expiryDate new_request) (rq_manufacturerAddress new_request) = TxOk ''tx''"
    by code_simp
  from register_without_reference [OF h1 h2 h3 h4 h5 h6, of 1800]
  show ?thesis by (simp only: snd_conv simp_thms)
qed

section \<open>Properties of the batch verification\<close>

text \<open>
  What holds of every input list: one result per id, in the order of the ids, each carrying
  its id.
\<close>

lemma verify_item_batchId: "i_batchId (verify_item c db now batch_id) = batch_id"
  by (simp add: verify_item_def verify_drug_def getattr_def error_item_def Let_def
      split: verify_result.splits)

lemma batch_verify_one_per_id:
  "\<exists>r. batch_verify_drugs c db now batch_ids = Inr r
        \<and> length (br_results r) = length batch_ids
        \<and> map i_batchId (br_results r) = batch_ids"
  by (simp add: batch_verify_drugs_def verify_item_batchId o_def)

text \<open>
  \<open>verify_drug\<close> answers with a dict, and the loop reads \<open>verification.isGenuine\<close>: the
  read raises \<open>AttributeError\<close>, which the inner \<open>except\<close> turns into an ERROR item, for
  every id.
\<close>

lemma verify_item_always_error:
  "i_status (verify_item c db now batch_id) = ''ERROR''
   \<and> i_isGenuine (verify_item c db now batch_id) = False"
  by (simp add: verify_item_def verify_drug_def getattr_def error_item_def Let_def
      split: verify_result.splits)

text \<open>
  C8. Batch \<open>B1\<close> verifies as GENUINE with isGenuine true, and the batch verification of the
  list of this one id answers with one item of status ERROR and isGenuine false: the item
  does not carry the verdict.
\<close>

theorem batch_verify_loses_verdict:
  "verify_drug genuine_ledger supply_db 1700 ''B1'' =
     Inr (Dict \<lparr> v_isGenuine = True, v_status = ''GENUINE'', v_batchId = ''B1'',
                 v_drugName = ''Aspirin'', v_manufacturer = ''0xm'',
                 v_compositionHash = ''ab'', v_currentOwner = ''0xp'',
                 v_manufactureDate = 1000, v_expiryDate = 2000, v_transferCount = 2,
                 v_ownershipHistory =
                   map format_record
                     [test_transfer ''0xm'' ''0xm'' 1 1, test_transfer ''0xm'' ''0xd'' 1 2,
                      test_transfer ''0xd'' ''0xp'' 2 3],
                 v_composition = Some [], v_anomalies = [] \<rparr>)
   \<and> batch_verify_drugs genuine_ledger supply_db 1700 [''B1''] =
     Inr \<lparr> br_success = True, br_totalBatches = 1,
           br_results =
             [\<lparr> i_batchId = ''B1'', i_isGenuine = False, i_status = ''ERROR'',
                i_error = Some (quote @ ''dict'' @ quote @ '' object has no attribute ''
                                 @ quote @ ''isGenuine'' @ quote) \<rparr>] \<rparr>"
  by code_simp

section \<open>Properties of the audit statistics\<close>

lemma audit_fold:
  "fold (audit_step c now) drugs (a, e) =
     (a + length (filter (ledger_anomalous c) drugs),
      e + length (filter (\<lambda>d. s_expiryDate d < now) drugs))"
  by (induction drugs arbitrary: a e)
     (auto simp: audit_step_def ledger_anomalous_def Let_def split: verify_result.splits)

text \<open>
  What the statistics count. Among the first 1000 stored batches, \<open>drugsWithAnomalies\<close>
  is the number of those whose ledger verification failed or whose ledger transfer count is
  below 2, and \<open>expiredDrugs\<close> the number of those whose stored expiry date is past.
\<close>

theorem audit_statistics_counts:
  "get_audit_statistics c db now =
     Inr \<lparr> totalDrugs = length (drug_composition_storage db),
           totalUsers = length (users db), totalTransfers = 0,
           drugsWithAnomalies =
             length (filter (ledger_anomalous c) (take 1000 (drug_composition_storage db))),
           expiredDrugs =
             length (filter (\<lambda>d. s_expiryDate d < now)
                       (take 1000 (drug_composition_storage db))) \<rparr>"
  by (simp add: get_audit_statistics_def Let_def audit_fold)

text \<open>
  C9. At time 2500 batch \<open>B1\<close> is past its expiry date 2000, with a complete chain and
  a ledger call that succeeds: the engine's status for it is EXPIRED and the anomaly report
  lists it as \<open>Expired\<close>, and the statistics count no batch with anomalies. At time
  1700, with another hash in the store than on the ledger, the engine's status is FAKE and
  the statistics again count no batch with anomalies.
\<close>

theorem audit_statistics_misses_anomalies:
  "verify_drug genuine_ledger supply_db 2500 ''B1'' =
     Inr (Dict \<lparr> v_isGenuine = False, v_status = ''EXPIRED'', v_batchId = ''B1'',
                 v_drugName = ''Aspirin'', v_manufacturer = ''0xm'',
                 v_compositionHash = ''ab'', v_currentOwner = ''0xp'',
                 v_manufactureDate = 1000, v_expiryDate = 2000, v_transferCount = 2,
                 v_ownershipHistory =
                   map format_record
                     [test_transfer ''0xm'' ''0xm'' 1 1, test_transfer ''0xm'' ''0xd'' 1 2,
                      test_transfer ''0xd'' ''0xp'' 2 3],
                 v_composition = Some [], v_anomalies = [expired_msg] \<rparr>)
   \<and> get_drugs_with_anomalies genuine_ledger supply_db 2500 =
     Inr [\<lparr> a_batchId = ''B1'', a_hasAnomalies = True, a_anomalyType = ''Expired'',
             a_ownershipCount = 2, a_drugName = ''Aspirin'', a_manufacturer = ''0xm'',
             a_currentOwner = ''0xp'' \<rparr>]
   \<and> get_audit_statistics genuine_ledger supply_db 2500 =
     Inr \<lparr> totalDrugs = 1, totalUsers = 3, totalTransfers = 0,
           drugsWithAnomalies = 0, expiredDrugs = 1 \<rparr>
   \<and> verify_drug genuine_ledger (test_store [test_doc ''B1'' ''cd'' 2000]) 1700 ''B1'' =
     Inr (Dict \<lparr> v_isGenuine = False, v_status = ''FAKE'', v_batchId = ''B1'',
                 v_drugName = ''Aspirin'', v_manufacturer = ''0xm'',
                 v_compositionHash = ''ab'', v_currentOwner = ''0xp'',
                 v_manufactureDate = 1000, v_expiryDate = 2000, v_transferCount = 2,
                 v_ownershipHistory =
                   map format_record
                     [test_transfer ''0xm'' ''0xm'' 1 1, test_transfer ''0xm'' ''0xd'' 1 2,
                      test_transfer ''0xd'' ''0xp'' 2 3],
                 v_composition = Some [], v_anomalies = [hash_mismatch_msg] \<rparr>)
   \<and> get_audit_statistics genuine_ledger (test_store [test_doc ''B1'' ''cd'' 2000]) 1700 =
     Inr \<lparr> totalDrugs = 1, totalUsers = 0, totalTransfers = 0,
           drugsWithAnomalies = 0, expiredDrugs = 0 \<rparr>"
  by code_simp

section \<open>Properties of the composition validation\<close>

text \<open>
  A composition is valid exactly when the reference names are not empty and all occur in
  it: the percentage is then 100, so the threshold of 90 never decides.
\<close>

lemma validate_composition_valid_iff:
  assumes "ingredient_names provided = Inr P" and "ingredient_names dataset = Inr D"
    and "finite D"
  shows "fst (validate_composition drug_name provided dataset) = (D \<noteq> {} \<and> D \<subseteq> P)"
proof (cases "D \<subseteq> P")
  case True
  then have "P \<inter> D = D" "D - P = {}" by blast+
  then show ?thesis
    using assms True by (auto simp: validate_composition_def Let_def card_gt_0_iff)
next
  case False
  then have "D - P \<noteq> {}" by blast
  then have "card (D - P) \<noteq> 0" using assms(3) by simp
  then show ?thesis
    using assms False by (auto simp: validate_composition_def Let_def)
qed

text \<open>
  C2, as the code has it. With ten reference names (distinct once lower-cased) and a
  submitted composition of exactly nine of them and no others, the match percentage is 90
  and the composition is not valid, since a reference ingredient is missing; with exactly
  eight of them the percentage is 80 and the composition is not valid.
\<close>

theorem validate_nine_of_ten:
  assumes p: "ingredient_names provided = Inr P"
    and d: "ingredient_names dataset = Inr D"
    and ten: "card D = 10"
    and sub: "P \<subseteq> D"
    and k: "card P = 9 \<or> card P = 8"
  shows "fst (validate_composition drug_name provided dataset) = False
         \<and> map_option matchPercentage (snd (snd (validate_composition drug_name provided dataset)))
             = Some (if card P = 9 then 90 else 80)"
proof -
  have fin: "finite D" using ten by (simp add: card_ge_0_finite)
  have inter: "P \<inter> D = P" using sub by blast
  have "card (D - P) = card D - card P" using sub fin
    by (simp add: card_Diff_subset finite_subset)
  then have missing: "card (D - P) \<noteq> 0" using ten k by auto
  show ?thesis
    using p d ten k missing
    by (auto simp: validate_composition_def Let_def inter)
qed

lemma names_ref10:
  "ingredient_names ref10
     = Inr {''a'', ''b'', ''c'', ''d'', ''e'', ''f'', ''g'', ''h'', ''i'', ''j''}"
  by code_simp

lemma names_sub9:
  "ingredient_names sub9 = Inr {''a'', ''b'', ''c'', ''d'', ''e'', ''f'', ''g'', ''h'', ''i''}"
  by code_simp

lemma names_sub8:
  "ingredient_names sub8 = Inr {''a'', ''b'', ''c'', ''d'', ''e'', ''f'', ''g'', ''h''}"
  by code_simp

lemma card_ref10: "card {''a'', ''b'', ''c'', ''d'', ''e'', ''f'', ''g'', ''h'', ''i'', ''j''} = 10"
  by code_simp

lemma card_sub9: "card {''a'', ''b'', ''c'', ''d'', ''e'', ''f'', ''g'', ''h'', ''i''} = 9"
  by code_simp

lemma card_sub8: "card {''a'', ''b'', ''c'', ''d'', ''e'', ''f'', ''g'', ''h''} = 8"
  by code_simp

theorem validate_nine_of_ten_witness:
  "(fst (validate_composition ''Aspirin'' sub9 ref10) = False
    \<and> map_option matchPercentage (snd (snd (validate_composition ''Aspirin'' sub9 ref10)))
        = Some 90)
   \<and> (fst (validate_composition ''Aspirin'' sub8 ref10) = False
      \<and> map_option matchPercentage (snd (snd (validate_composition ''Aspirin'' sub8 ref10)))
          = Some 80)"
proof -
  have s9: "{''a'', ''b'', ''c'', ''d'', ''e'', ''f'', ''g'', ''h'', ''i''}
              \<subseteq> {''a'', ''b'', ''c'', ''d'', ''e'', ''f'', ''g'', ''h'', ''i'', ''j''}"
    by blast
  have s8: "{''a'', ''b'', ''c'', ''d'', ''e'', ''f'', ''g'', ''h''}
              \<subseteq> {''a'', ''b'', ''c'', ''d'', ''e'', ''f'', ''g'', ''h'', ''i'', ''j''}"
    by blast
  have k9: "card {''a'', ''b'', ''c'', ''d'', ''e'', ''f'', ''g'', ''h'', ''i''} = 9
          \<or> card {''a'', ''b'', ''c'', ''d'', ''e'', ''f'', ''g'', ''h'', ''i''} = 8"
    using card_sub9 by simp
  have k8: "card {''a'', ''b'', ''c'', ''d'', ''e'', ''f'', ''g'', ''h''} = 9
          \<or> card {''a'', ''b'', ''c'', ''d'', ''e'', ''f'', ''g'', ''h''} = 8"
    using card_sub8 by simp
  from validate_nine_of_ten [OF names_sub9 names_ref10 card_ref10 s9 k9, of "''Aspirin''"]
       validate_nine_of_ten [OF names_sub8 names_ref10 card_ref10 s8 k8, of "''Aspirin''"]
  show ?thesis by (simp add: card_sub9 card_sub8)
qed

text \<open>
  C2, as stated, fails: the reference has the ten names A to J, the submitted composition
  the nine names A to I, and the result is not valid, at 90 percent with \<open>j\<close> missing.
\<close>

theorem validate_nine_of_ten_counterexample:
  "validate_composition ''Aspirin'' sub9 ref10 =
     (False, ''Composition validation failed (90.0% match)'',
      Some \<lparr> matchPercentage = 90, missingIngredients = {''j''}, extraIngredients = {},
             totalProvidedIngredients = 9, totalExpectedIngredients = 10 \<rparr>)"
  by code_simp

section \<open>Properties of the canonical hashing\<close>

text \<open>
  Sorting by a key is the same for two lists with the same elements, when no two elements
  share a key.
\<close>

lemma sort_key_perm_distinct:
  fixes f :: "'a \<Rightarrow> 'k::linorder"
  assumes m: "mset xs = mset ys" and d: "distinct (map f xs)"
  shows "sort_key f xs = sort_key f ys"
proof -
  have s: "set xs = set ys" using m by (rule mset_eq_setD)
  have mf: "mset (map f xs) = mset (map f ys)" using m by (metis mset_map)
  have d': "distinct (map f ys)" using d mf by (metis mset_eq_imp_distinct_iff)
  have inj: "inj_on f (set xs)" using d by (simp add: distinct_map)
  have "map f (sort_key f xs) = map f (sort_key f ys)"
  proof (rule sorted_distinct_set_unique)
    show "sorted (map f (sort_key f xs))" "sorted (map f (sort_key f ys))" by simp_all
    show "distinct (map f (sort_key f xs))"
      using d by (metis mset_eq_imp_distinct_iff mset_map mset_sort)
    show "distinct (map f (sort_key f ys))"
      using d' by (metis mset_eq_imp_distinct_iff mset_map mset_sort)
    show "set (map f (sort_key f xs)) = set (map f (sort_key f ys))" using s by simp
  qed
  moreover have "inj_on f (set (sort_key f xs) \<union> set (sort_key f ys))"
    using inj s by simp
  ultimately show ?thesis by (simp add: inj_on_map_eq_map)
qed

text \<open>
  Sorting is idempotent, so the dict that \<open>normalize_composition\<close> leaves behind
  normalises to the same text: \<open>verify(c, hash(c))\<close> is true, on \<open>c\<close> as it was
  and on \<open>c\<close> as the hashing left it.
\<close>

lemma decorate_Inr:
  "decorate xs = Inr ks \<Longrightarrow> map snd ks = xs \<and> list_all (\<lambda>p. name_key (snd p) = Inr (fst p)) ks"
  by (induction xs arbitrary: ks) (auto split: sum.splits)

lemma decorate_of:
  "list_all (\<lambda>p. name_key (snd p) = Inr (fst p)) ks \<Longrightarrow> decorate (map snd ks) = Inr ks"
  by (induction ks) auto

lemma sorted_by_name_idem:
  assumes "sorted_by_name xs = Inr ys"
  shows "sorted_by_name ys = Inr ys"
proof -
  from assms obtain ks where ks: "decorate xs = Inr ks" and ys: "ys = map snd (sort_key fst ks)"
    by (auto simp: sorted_by_name_def split: sum.splits)
  have "list_all (\<lambda>p. name_key (snd p) = Inr (fst p)) (sort_key fst ks)"
    using decorate_Inr [OF ks] by (simp add: list_all_iff)
  then have "decorate ys = Inr (sort_key fst ks)"
    unfolding ys by (rule decorate_of)
  then show ?thesis
    by (simp add: sorted_by_name_def ys sort_key_id_if_sorted)
qed

lemma normalize_composition_idem:
  assumes "normalize_composition c = Inr (c', t)"
  shows "normalize_composition c' = Inr (c', t)"
proof (cases "map_of c ''ingredients''")
  case None
  then show ?thesis using assms by (auto simp: normalize_composition_def)
next
  case (Some v)
  with assms obtain xs ys where xs: "iterate v = Inr xs" and ys: "sorted_by_name xs = Inr ys"
    and c': "c' = AList.update ''ingredients'' (PList ys) c" and t: "t = dumps (PDict c')"
    by (auto simp: normalize_composition_def Let_def split: sum.splits)
  have m: "map_of c' ''ingredients'' = Some (PList ys)"
    by (simp add: c' AList.update_conv')
  have u: "AList.update ''ingredients'' (PList ys) c' = c'"
    using m by (rule AList.update_triv)
  show ?thesis
    by (simp add: normalize_composition_def m iterate_def sorted_by_name_idem [OF ys] u t)
qed

lemma verify_own_hash:
  assumes "generate_composition_hash H c = Inr (c', h)"
  shows "verify_composition_hash H c h = Inr (c', True)"
    and "verify_composition_hash H c' h = Inr (c', True)"
proof -
  show "verify_composition_hash H c h = Inr (c', True)"
    using assms by (simp add: verify_composition_hash_def)
  from assms obtain t where n: "normalize_composition c = Inr (c', t)" and h: "h = H (encode_utf8 t)"
    by (auto simp: generate_composition_hash_def split: sum.splits)
  show "verify_composition_hash H c' h = Inr (c', True)"
    by (simp add: verify_composition_hash_def generate_composition_hash_def
        normalize_composition_idem [OF n] h)
qed

text \<open>The order of the keys of a dict does not change its text.\<close>

lemma dumps_dict_perm:
  assumes "mset kvs = mset kvs'" and "distinct (map fst kvs)"
  shows "dumps (PDict kvs) = dumps (PDict kvs')"
proof -
  let ?g = "\<lambda>kv. (fst kv, json_string (fst kv) @ '':'' @ dumps (snd kv))"
  have "mset (map ?g kvs) = mset (map ?g kvs')" using assms(1) by (metis mset_map)
  moreover have "distinct (map fst (map ?g kvs))" using assms(2) by (simp add: o_def)
  ultimately have "sort_key fst (map ?g kvs) = sort_key fst (map ?g kvs')"
    by (rule sort_key_perm_distinct)
  then show ?thesis by simp
qed


text \<open>
  The order of the ingredient list does not change the canonical text, provided no two
  ingredients have the same lower-cased name.
\<close>

lemma decorate_total:
  assumes "list_all (\<lambda>x. name_key x = Inr (k x)) xs"
  shows "decorate xs = Inr (map (\<lambda>x. (k x, x)) xs)"
  using assms by (induction xs) auto

lemma decorate_keys:
  assumes "decorate xs = Inr ks"
  shows "list_all (\<lambda>x. name_key x = Inr (projr (name_key x))) xs"
    and "ks = map (\<lambda>x. (projr (name_key x), x)) xs"
  using assms by (induction xs arbitrary: ks) (auto split: sum.splits)

lemma sorted_by_name_perm:
  assumes ks: "decorate xs = Inr ks"
    and d: "distinct (map fst ks)"
    and m: "mset xs' = mset xs"
  shows "sorted_by_name xs' = sorted_by_name xs"
proof -
  let ?k = "\<lambda>x. projr (name_key x)"
  let ?g = "\<lambda>x. (?k x, x)"
  have all: "list_all (\<lambda>x. name_key x = Inr (?k x)) xs" and eq: "ks = map ?g xs"
    using decorate_keys [OF ks] by simp_all
  have "set xs' = set xs" using m by (rule mset_eq_setD)
  then have "list_all (\<lambda>x. name_key x = Inr (?k x)) xs'"
    using all by (simp add: list_all_iff)
  then have ks': "decorate xs' = Inr (map ?g xs')" by (rule decorate_total)
  have "mset (map ?g xs) = mset (map ?g xs')" using m by (metis mset_map)
  moreover have "distinct (map fst (map ?g xs))" using d eq by simp
  ultimately have "sort_key fst (map ?g xs) = sort_key fst (map ?g xs')"
    by (rule sort_key_perm_distinct)
  then show ?thesis
    using ks ks' eq by (simp add: sorted_by_name_def)
qed

lemma normalize_composition_ingredient_order:
  assumes ing: "map_of c ''ingredients'' = Some (PList xs)"
    and ks: "decorate xs = Inr ks"
    and d: "distinct (map fst ks)"
    and m: "mset xs' = mset xs"
  shows "normalize_composition (AList.update ''ingredients'' (PList xs') c)
           = normalize_composition c"
proof -
  have "sorted_by_name xs' = sorted_by_name xs" using ks d m by (rule sorted_by_name_perm)
  then show ?thesis
    using ing
    by (simp add: normalize_composition_def AList.update_conv' iterate_def split: sum.splits)
qed

text \<open>
  The order of the keys inside each ingredient changes neither its sort key nor its text,
  so the canonical text of the composition stays the same.
\<close>

lemma same_items_dumps:
  assumes "same_items a b"
  shows "dumps a = dumps b"
proof -
  from assms obtain kvs kvs' where a: "a = PDict kvs" and b: "b = PDict kvs'"
    and m: "mset kvs = mset kvs'" and d: "distinct (map fst kvs)"
    by (auto simp: same_items_def split: pyval.splits)
  show ?thesis unfolding a b using m d by (rule dumps_dict_perm)
qed

lemma same_items_name_key:
  assumes "same_items a b"
  shows "name_key a = name_key b"
proof -
  from assms obtain kvs kvs' where a: "a = PDict kvs" and b: "b = PDict kvs'"
    and m: "mset kvs = mset kvs'" and d: "distinct (map fst kvs)"
    by (auto simp: same_items_def split: pyval.splits)
  have "distinct (map fst kvs')"
    using m d by (metis mset_eq_imp_distinct_iff mset_map)
  moreover have "set kvs = set kvs'" using m by (rule mset_eq_setD)
  ultimately have "map_of kvs = map_of kvs'"
    using d by (simp add: map_of_inject_set)
  then show ?thesis by (simp add: a b name_key_def)
qed

lemma decorate_same_items:
  assumes "list_all2 same_items xs xs'"
  shows "rel_sum (=) (list_all2 (\<lambda>p q. fst p = fst q \<and> same_items (snd p) (snd q)))
           (decorate xs) (decorate xs')"
  using assms
proof (induction rule: list_all2_induct)
  case Nil
  then show ?case by simp
next
  case (Cons x xs y ys)
  then show ?case
    by (auto simp: same_items_name_key [of x y] split: sum.splits elim: rel_sum.cases)
qed

lemma insort_key_rel:
  assumes "list_all2 (\<lambda>p q. fst p = fst q \<and> R (snd p) (snd q)) ps qs"
    and "fst p = fst q" and "R (snd p) (snd q)"
  shows "list_all2 (\<lambda>p q. fst p = fst q \<and> R (snd p) (snd q))
           (insort_key fst p ps) (insort_key fst q qs)"
  using assms by (induction rule: list_all2_induct) auto

lemma sort_key_rel:
  assumes "list_all2 (\<lambda>p q. fst p = fst q \<and> R (snd p) (snd q)) ps qs"
  shows "list_all2 (\<lambda>p q. fst p = fst q \<and> R (snd p) (snd q))
           (sort_key fst ps) (sort_key fst qs)"
  using assms by (induction rule: list_all2_induct) (auto intro: insort_key_rel)

lemma sorted_by_name_same_items:
  assumes "list_all2 same_items xs xs'"
  shows "rel_sum (=) (list_all2 same_items) (sorted_by_name xs) (sorted_by_name xs')"
proof (cases "decorate xs")
  case (Inl e)
  with decorate_same_items [OF assms] have "decorate xs' = Inl e"
    by (cases "decorate xs'") simp_all
  with Inl show ?thesis by (simp add: sorted_by_name_def)
next
  case (Inr ks)
  with decorate_same_items [OF assms] obtain ks' where ks': "decorate xs' = Inr ks'"
    and rel: "list_all2 (\<lambda>p q. fst p = fst q \<and> same_items (snd p) (snd q)) ks ks'"
    by (cases "decorate xs'") simp_all
  from sort_key_rel [OF rel]
  have "list_all2 same_items (map snd (sort_key fst ks)) (map snd (sort_key fst ks'))"
    by (simp add: list_all2_map1 list_all2_map2 list_all2_mono)
  then show ?thesis using Inr ks' by (simp add: sorted_by_name_def)
qed

lemma normalize_composition_key_order:
  assumes "list_all2 same_items xs xs'"
  shows "map_sum id snd (normalize_composition [(''ingredients'', PList xs)])
           = map_sum id snd (normalize_composition [(''ingredients'', PList xs')])"
proof (cases "sorted_by_name xs")
  case (Inl e)
  with sorted_by_name_same_items [OF assms] have "sorted_by_name xs' = Inl e"
    by (cases "sorted_by_name xs'") simp_all
  with Inl show ?thesis by (simp add: normalize_composition_def iterate_def)
next
  case (Inr ys)
  with sorted_by_name_same_items [OF assms] obtain ys' where ys': "sorted_by_name xs' = Inr ys'"
    and rel: "list_all2 same_items ys ys'"
    by (cases "sorted_by_name xs'") simp_all
  from rel have "map dumps ys = map dumps ys'"
    by (induction rule: list_all2_induct) (simp_all add: same_items_dumps)
  then show ?thesis
    using Inr ys' by (simp add: normalize_composition_def iterate_def)
qed

text \<open>
  C4, where the code departs from it. The two compositions hold the same two ingredients, named \<open>Aspirin\<close> and \<open>aspirin\<close>,
  in the two orders. The sort key of both is \<open>aspirin\<close> and the sort is stable, so each list
  stays in the order it came in: the canonical texts differ, and the hashes are the digests
  of two different texts.
\<close>

theorem hash_depends_on_order_of_equal_names:
  "mset [ingredient ''Aspirin'' ''100mg'', ingredient ''aspirin'' ''200mg'']
     = mset [ingredient ''aspirin'' ''200mg'', ingredient ''Aspirin'' ''100mg'']
   \<and> generate_composition_hash H tie_first
       = Inr (tie_first, H (encode_utf8 (dumps (PDict tie_first))))
   \<and> generate_composition_hash H tie_second
       = Inr (tie_second, H (encode_utf8 (dumps (PDict tie_second))))
   \<and> encode_utf8 (dumps (PDict tie_first)) \<noteq> encode_utf8 (dumps (PDict tie_second))"
proof -
  have n1: "normalize_composition tie_first = Inr (tie_first, dumps (PDict tie_first))"
    by code_simp
  have n2: "normalize_composition tie_second = Inr (tie_second, dumps (PDict tie_second))"
    by code_simp
  have d: "dumps (PDict tie_first) \<noteq> dumps (PDict tie_second)"
    by code_simp
  show ?thesis
    using d by (simp add: generate_composition_hash_def n1 n2 encode_utf8_def add.commute)
qed

end
